theory Spec2Isabelle
  imports Main "HOL-Library.Word"
begin

section \<open>Command-line construction\<close>

text \<open>
  Go strings are byte sequences; they are modelled as \<open>string\<close> (lists of 8-bit
  characters). The four bytes that matter to escaping are named here.
\<close>

abbreviation DQUOTE :: char where "DQUOTE \<equiv> CHR 0x22"
abbreviation BSLASH :: char where "BSLASH \<equiv> CHR 0x5C"
abbreviation SPACE :: char where "SPACE \<equiv> CHR 0x20"
abbreviation TAB :: char where "TAB \<equiv> CHR 0x09"

text \<open>
  \<open>syscall.EscapeArg\<close> of the Go standard library, which \<open>makeCmdLine\<close> calls on
  every argument. Its first loop computes the size bound \<open>n\<close> and \<open>hasSpace\<close>; when
  nothing needs escaping the argument is returned as it is. Its second loop fills the
  buffer \<open>qs\<close>, counting the backslashes that immediately precede the current byte:
  a double quote gets these backslashes doubled and one more in front of it. An argument
  with a space or a tab is wrapped in double quotes, the trailing backslashes doubled.
\<close>

fun EscapeArg_scan :: "string \<Rightarrow> nat \<Rightarrow> bool \<Rightarrow> nat \<times> bool" where
  "EscapeArg_scan [] n hasSpace = (n, hasSpace)"
| "EscapeArg_scan (c # cs) n hasSpace =
     (if c = DQUOTE \<or> c = BSLASH then EscapeArg_scan cs (n + 1) hasSpace
      else if c = SPACE \<or> c = TAB then EscapeArg_scan cs n True
      else EscapeArg_scan cs n hasSpace)"

fun EscapeArg_fill :: "string \<Rightarrow> string \<Rightarrow> nat \<Rightarrow> string \<times> nat" where
  "EscapeArg_fill [] qs slashes = (qs, slashes)"
| "EscapeArg_fill (c # cs) qs slashes =
     (if c = BSLASH then EscapeArg_fill cs (qs @ [c]) (slashes + 1)
      else if c = DQUOTE then
        EscapeArg_fill cs (qs @ replicate slashes BSLASH @ [BSLASH, c]) 0
      else EscapeArg_fill cs (qs @ [c]) 0)"

definition EscapeArg :: "string \<Rightarrow> string" where
  "EscapeArg s =
     (if length s = 0 then [DQUOTE, DQUOTE]
      else
        let (n0, hasSpace) = EscapeArg_scan s (length s) False;
            n = (if hasSpace then n0 + 2 else n0)
        in if n = length s then s
           else
             let (qs, slashes) = EscapeArg_fill s (if hasSpace then [DQUOTE] else []) 0
             in if hasSpace then qs @ replicate slashes BSLASH @ [DQUOTE] else qs)"

text \<open>
  \<open>makeCmdLine\<close>: the loop appends a space and the escaped argument to \<open>cmd\<close> for
  each argument in turn; \<open>cmd\<close> itself is not touched.
\<close>

definition makeCmdLine :: "string \<Rightarrow> string list \<Rightarrow> string" where
  "makeCmdLine cmd args = foldl (\<lambda>cmd v. cmd @ [SPACE] @ EscapeArg v) cmd args"

text \<open>
  The command-line convention of the target platform, by which the spawned program
  recovers its argument vector from the flat string (the rules of
  \<open>CommandLineToArgvW\<close>, written as Go's own \<open>commandLineToArgv\<close> and
  \<open>readNextArg\<close> write them): arguments are separated by spaces and tabs outside
  quotes; \<open>2n\<close> backslashes before a double quote give \<open>n\<close> backslashes and the quote
  toggles quoting; \<open>2n+1\<close> backslashes before a double quote give \<open>n\<close> backslashes and
  a literal quote; backslashes elsewhere are literal.
\<close>

fun readNextArg_loop :: "string \<Rightarrow> string \<Rightarrow> bool \<Rightarrow> nat \<Rightarrow> string \<times> string" where
  "readNextArg_loop [] b inquote nslash = (b @ replicate nslash BSLASH, [])"
| "readNextArg_loop (c # cmd) b inquote nslash =
     (if c = SPACE \<or> c = TAB then
        (if \<not> inquote then (b @ replicate nslash BSLASH, cmd)
         else readNextArg_loop cmd (b @ replicate nslash BSLASH @ [c]) inquote 0)
      else if c = DQUOTE then
        (if nslash mod 2 = 0 then
           (case cmd of
              c' # cmd' \<Rightarrow>
                if inquote \<and> c' = DQUOTE
                then readNextArg_loop cmd' (b @ replicate (nslash div 2) BSLASH @ [c]) (\<not> inquote) 0
                else readNextArg_loop cmd (b @ replicate (nslash div 2) BSLASH) (\<not> inquote) 0
            | [] \<Rightarrow> readNextArg_loop cmd (b @ replicate (nslash div 2) BSLASH) (\<not> inquote) 0)
         else readNextArg_loop cmd (b @ replicate (nslash div 2) BSLASH @ [c]) inquote 0)
      else if c = BSLASH then readNextArg_loop cmd b inquote (nslash + 1)
      else readNextArg_loop cmd (b @ replicate nslash BSLASH @ [c]) inquote 0)"

definition readNextArg :: "string \<Rightarrow> string \<times> string" where
  "readNextArg cmd = readNextArg_loop cmd [] False 0"

declare readNextArg_loop.simps(2) [simp del]

function commandLineToArgv :: "string \<Rightarrow> string list" where
  "commandLineToArgv cmd =
     (if length cmd = 0 then []
      else if hd cmd = SPACE \<or> hd cmd = TAB then commandLineToArgv (tl cmd)
      else let (arg, rest) = readNextArg cmd in arg # commandLineToArgv rest)"
  by pat_completeness auto
termination
proof (relation "measure length")
  show "wf (measure length)" by simp
next
  fix cmd :: string
  assume "length cmd \<noteq> 0"
  then show "(tl cmd, cmd) \<in> measure length" by (cases cmd) auto
next
  fix cmd :: string and x :: "string \<times> string" and arg rest
  assume a: "length cmd \<noteq> 0" "x = readNextArg cmd" "(arg, rest) = x"
  have le: "length (snd (readNextArg_loop s b inquote nslash)) \<le> length s"
    for s b inquote nslash
  proof (induction s b inquote nslash rule: readNextArg_loop.induct)
    case (1 b inquote nslash)
    then show ?case by simp
  next
    case (2 c cmd b inquote nslash)
    show ?case
      by (subst readNextArg_loop.simps(2)) (use 2 in \<open>auto split: list.splits simp: le_SucI\<close>)
  qed
  have less: "length (snd (readNextArg_loop (c # s) b inquote nslash)) < length (c # s)"
    for c s b inquote nslash
    by (subst readNextArg_loop.simps(2))
       (auto split: list.splits simp: less_Suc_eq_le le_SucI le
          intro: le_SucI order_trans [OF le])
  from a have "rest = snd (readNextArg_loop cmd [] False 0)" "cmd \<noteq> []"
    by (auto simp: readNextArg_def dest: sym)
  then show "(rest, cmd) \<in> measure length"
    using less by (cases cmd) auto
qed

declare commandLineToArgv.simps [simp del]

text \<open>
  A command path that the convention reads back as one argument without any escaping: it
  is not empty and has no space, no tab and no double quote.
\<close>

definition plain_token :: "string \<Rightarrow> bool" where
  "plain_token s = (s \<noteq> [] \<and> list_all (\<lambda>c. c \<noteq> SPACE \<and> c \<noteq> TAB \<and> c \<noteq> DQUOTE) s)"

text \<open>
  Two notions used to reason about \<open>EscapeArg\<close>: whether an argument has a space or a
  tab, and the escaped arguments joined by single spaces.
\<close>

definition has_space :: "string \<Rightarrow> bool" where
  "has_space s = list_ex (\<lambda>c. c = SPACE \<or> c = TAB) s"

fun joinArgs :: "string list \<Rightarrow> string" where
  "joinArgs [] = []"
| "joinArgs [v] = EscapeArg v"
| "joinArgs (v # w # vs) = EscapeArg v @ SPACE # joinArgs (w # vs)"

section \<open>Errors and the operating system's answers\<close>

text \<open>
  Errors coming from the operating system or the Go library are carried by their message.
  A \<open>*os.PathError\<close> keeps its three fields (\<open>Op\<close>, \<open>Path\<close>, \<open>Err\<close>), which
  \<open>skipStdinCopyError\<close> inspects.
\<close>

type_synonym errno = nat
type_synonym handle = nat
type_synonym byte = "8 word"

abbreviation ERROR_BROKEN_PIPE :: errno where "ERROR_BROKEN_PIPE \<equiv> 109"
abbreviation ERROR_NO_DATA :: errno where "ERROR_NO_DATA \<equiv> 0xe8"

datatype go_error = PathError string string errno | OtherError string

datatype reg_error = ErrNotExist | RegError string

fun reg_error_text :: "reg_error \<Rightarrow> string" where
  "reg_error_text ErrNotExist = ''The system cannot find the file specified.''"
| "reg_error_text (RegError msg) = msg"

text \<open>
  One constructor for each error that \<open>execCommand\<close> and the functions it calls build
  with \<open>fmt.Errorf\<close>, in the order of the source:
  \<^item> \<open>PipeCreationError\<close>: "failed to create pipe: %s";
  \<^item> \<open>CommandEncodingError\<close>: "can't convert command string to UTF16: %s";
  \<^item> \<open>CmdlineEncodingError\<close>: "can't convert cmdline string to UTF16: %s";
  \<^item> \<open>HandleDuplicationError\<close>: "can't call DuplicateHandle to execute secretBackendCommand: %s";
  \<^item> \<open>CredentialNotFound\<close>: "Secret user password does not found in the registry";
  \<^item> \<open>CredentialOpenError\<close>: "can't read secrets user password from registry: %s";
  \<^item> \<open>CredentialValueError\<close>: "Could not read password for secrets user from registry: %s";
  \<^item> \<open>ProcessCreationError\<close>: "error from CreateProcessWithLogonW: %s";
  \<^item> \<open>FindProcessError\<close>: "error finding backend process: %s";
  \<^item> \<open>TimeoutError\<close>: "error while running '%s': command timeout";
  \<^item> \<open>ProcessWaitError\<close>: "error while running '%s': %s";
  \<^item> \<open>NonZeroExitError\<close>: "'%s' exited with failure status".
\<close>

datatype exec_error =
    PipeCreationError string
  | CommandEncodingError string
  | CmdlineEncodingError string
  | HandleDuplicationError string
  | CredentialNotFound
  | CredentialOpenError string
  | CredentialValueError string
  | ProcessCreationError string
  | FindProcessError string
  | TimeoutError string
  | ProcessWaitError string string
  | NonZeroExitError string

text \<open>
  The two errors that report a failure to read the credential other than its key being
  absent (the class \<open>CredentialReadError\<close>).
\<close>

fun is_CredentialReadError :: "exec_error \<Rightarrow> bool" where
  "is_CredentialReadError (CredentialOpenError _) = True"
| "is_CredentialReadError (CredentialValueError _) = True"
| "is_CredentialReadError _ = False"

text \<open>
  The package-level settings that \<open>execCommand\<close> reads; they are declared in another
  file of the package and are parameters here.
\<close>

record config =
  secretBackendCommand :: string
  secretBackendArguments :: "string list"
  secretBackendTimeout :: int
  secretBackendOutputMaxSize :: int

datatype sink = Stdout | Stderr

text \<open>
  What the operating system and the child process do during one call:
  \<^item> \<open>pipe_result i\<close>: the outcome of the \<open>i\<close>-th call of \<open>os.Pipe\<close>, an error or
    the handles of the read end and of the write end;
  \<^item> \<open>dup_result i\<close>: the outcome of \<open>DuplicateHandle\<close> on \<open>attr.Files[i]\<close>;
  \<^item> \<open>open_key\<close>, \<open>get_string_value\<close>: the outcomes of \<open>registry.OpenKey\<close> (no
    error, or the error) and of \<open>k.GetStringValue(username)\<close>;
  \<^item> \<open>create_process\<close>: \<open>CreateProcessWithLogonW\<close> returns 0 with an error, or
    creates the process with this identifier; \<open>find_process\<close>: the error of
    \<open>os.FindProcess\<close>, if any;
  \<^item> \<open>stdin_copy_err\<close>, \<open>stdin_close_err\<close>: the errors of \<open>io.Copy(pw, r)\<close> and of
    \<open>pw.Close()\<close> in the task feeding the child's standard input;
  \<^item> \<open>written s\<close>: the chunks the child writes to the stream \<open>s\<close>, as the reads of
    \<open>io.Copy\<close> receive them; \<open>read_fault s\<close>: when a read of that pipe fails, the
    number of chunks received before and the error;
  \<^item> \<open>completion_rank i\<close>: when the \<open>i\<close>-th task sends its result on \<open>errch\<close>
    (results are received in increasing rank);
  \<^item> \<open>watcher_kills\<close>: the deadline of \<open>ctx\<close> passes while \<open>process.Wait()\<close> is
    pending, so that the watcher goroutine takes the branch \<open>ctx.Done()\<close> and calls
    \<open>process.Kill()\<close>; \<open>deadline_after_wait\<close>: the deadline passes later, before
    \<open>ctx.Err()\<close> is read;
  \<^item> \<open>wait_err\<close>, \<open>exit_success\<close>: the error returned by \<open>process.Wait()\<close> and,
    when there is none, \<open>state.Success()\<close>.
\<close>

record env =
  pipe_result :: "nat \<Rightarrow> string + handle \<times> handle"
  dup_result :: "nat \<Rightarrow> string + handle"
  open_key :: "reg_error option"
  get_string_value :: "reg_error + string"
  create_process :: "string + nat"
  find_process :: "string option"
  stdin_copy_err :: "go_error option"
  stdin_close_err :: "go_error option"
  written :: "sink \<Rightarrow> byte list list"
  read_fault :: "sink \<Rightarrow> (nat \<times> go_error) option"
  completion_rank :: "nat \<Rightarrow> nat"
  watcher_kills :: bool
  deadline_after_wait :: bool
  wait_err :: "string option"
  exit_success :: bool

section \<open>The bounded output buffer\<close>

text \<open>
  Modelled from the spec: the type \<open>limitBuffer\<close> and its \<open>Write\<close> method are
  declared in another file of the package; \<open>execCommand\<close> only builds the two buffers
  (fields \<open>buf\<close> and \<open>max\<close>) and reads \<open>stdout.buf.Bytes()\<close>. By the specification
  the buffer accumulates bytes up to the configured maximum and discards the excess: bytes
  beyond the bound are never stored, and the write that overflows is dropped rather than
  reported as an error.
\<close>

record limitBuffer =
  buf :: "byte list"
  max_bytes :: int

definition limitBuffer_Write :: "limitBuffer \<Rightarrow> byte list \<Rightarrow> (nat \<times> go_error option) \<times> limitBuffer" where
  "limitBuffer_Write b p =
     ((length p, None),
      b\<lparr>buf := buf b @ take (nat (max_bytes b - int (length (buf b)))) p\<rparr>)"

text \<open>
  \<open>io.Copy(w, pr)\<close> of the Go library, for the chunks read from the pipe: each chunk is
  written to the buffer; a write error or a short write ends the copy with that error;
  after the last chunk the copy ends with the read error, if any (end of file is none).
\<close>

abbreviation ErrShortWrite :: go_error where "ErrShortWrite \<equiv> OtherError ''short write''"

fun io_Copy :: "limitBuffer \<Rightarrow> byte list list \<Rightarrow> go_error option \<Rightarrow> go_error option \<times> limitBuffer" where
  "io_Copy w [] er = (er, w)"
| "io_Copy w (p # ps) er =
     (case limitBuffer_Write w p of
        ((nw, ew), w') \<Rightarrow>
          if ew \<noteq> None then (ew, w')
          else if length p \<noteq> nw then (Some ErrShortWrite, w')
          else io_Copy w' ps er)"

text \<open>The chunks a relay task receives from the pipe of stream \<open>s\<close>, and how its reads end.\<close>

definition received :: "env \<Rightarrow> sink \<Rightarrow> byte list list" where
  "received e s = (case read_fault e s of None \<Rightarrow> written e s | Some (n, err) \<Rightarrow> take n (written e s))"

definition read_err :: "env \<Rightarrow> sink \<Rightarrow> go_error option" where
  "read_err e s = (case read_fault e s of None \<Rightarrow> None | Some (n, err) \<Rightarrow> Some err)"

section \<open>Credential source\<close>

definition getPasswordFromRegistry :: "env \<Rightarrow> exec_error + string" where
  "getPasswordFromRegistry e =
     (case open_key e of
        Some err \<Rightarrow>
          if err = ErrNotExist then Inl CredentialNotFound
          else Inl (CredentialOpenError (reg_error_text err))
      | None \<Rightarrow>
          (case get_string_value e of
             Inl err \<Rightarrow> Inl (CredentialValueError (reg_error_text err))
           | Inr password \<Rightarrow> Inr password))"

section \<open>Handles, pipes and relay tasks\<close>

text \<open>
  Every handle the parent opens is a resource: the two ends of the \<open>i\<close>-th pipe, and
  the duplicate made of \<open>attr.Files[i]\<close>. The part of the world that one call changes is
  the list of resources open in the parent, the number of pipes created, the request
  handed to \<open>CreateProcessWithLogonW\<close> (application name, command line, password and
  the three standard handles), whether a child process has been created, and whether it
  has been killed.
\<close>

datatype resource = PipeRead nat | PipeWrite nat | Duplicate nat

record os_file =
  res :: resource
  fd :: handle

record world =
  open_res :: "resource list"
  n_pipes :: nat
  spawn_request :: "(string \<times> string \<times> string \<times> handle list) option"
  process_created :: bool
  process_killed :: bool

definition world0 :: world where
  "world0 = \<lparr>open_res = [], n_pipes = 0, spawn_request = None,
             process_created = False, process_killed = False\<rparr>"

text \<open>
  The closures appended to \<open>goroutine\<close>: the task copying the payload into the write
  end of the stdin pipe, and the task copying the read end of an output pipe into a
  bounded buffer. The three slices that \<open>setInputPipe\<close> and \<open>setOutputPipe\<close> extend
  through pointers are the fields of \<open>plumbing\<close>.
\<close>

datatype relay = CopyIn string os_file | CopyOut sink os_file

record plumbing =
  goroutine :: "relay list"
  closeAfterStart :: "os_file list"
  closeAfterWait :: "os_file list"

definition os_Pipe :: "env \<Rightarrow> world \<Rightarrow> string + os_file \<times> os_file \<times> world" where
  "os_Pipe e w =
     (case pipe_result e (n_pipes w) of
        Inl err \<Rightarrow> Inl err
      | Inr (hr, hw) \<Rightarrow>
          Inr (\<lparr>res = PipeRead (n_pipes w), fd = hr\<rparr>,
               \<lparr>res = PipeWrite (n_pipes w), fd = hw\<rparr>,
               w\<lparr>open_res := open_res w @ [PipeRead (n_pipes w), PipeWrite (n_pipes w)],
                 n_pipes := n_pipes w + 1\<rparr>))"

definition Close :: "os_file \<Rightarrow> world \<Rightarrow> world" where
  "Close f w = w\<lparr>open_res := removeAll (res f) (open_res w)\<rparr>"

definition closeFileList :: "os_file list \<Rightarrow> world \<Rightarrow> world" where
  "closeFileList fileList w = foldl (\<lambda>w f. Close f w) w fileList"

definition skipStdinCopyError :: "go_error option \<Rightarrow> bool" where
  "skipStdinCopyError err =
     (case err of
        Some (PathError op path pe_err) \<Rightarrow>
          op = ''write'' \<and> path = ''|1'' \<and>
          (pe_err = ERROR_BROKEN_PIPE \<or> pe_err = ERROR_NO_DATA)
      | _ \<Rightarrow> False)"

definition setInputPipe ::
  "string \<Rightarrow> env \<Rightarrow> plumbing \<Rightarrow> world \<Rightarrow> exec_error + plumbing \<times> world" where
  "setInputPipe r e pl w =
     (case os_Pipe e w of
        Inl err \<Rightarrow> Inl (PipeCreationError err)
      | Inr (pr, pw, w') \<Rightarrow>
          Inr (pl\<lparr>goroutine := goroutine pl @ [CopyIn r pw],
                  closeAfterStart := closeAfterStart pl @ [pr],
                  closeAfterWait := closeAfterWait pl @ [pw]\<rparr>, w'))"

definition setOutputPipe ::
  "sink \<Rightarrow> env \<Rightarrow> plumbing \<Rightarrow> world \<Rightarrow> exec_error + plumbing \<times> world" where
  "setOutputPipe s e pl w =
     (case os_Pipe e w of
        Inl err \<Rightarrow> Inl (PipeCreationError err)
      | Inr (pr, pw, w') \<Rightarrow>
          Inr (pl\<lparr>goroutine := goroutine pl @ [CopyOut s pr],
                  closeAfterStart := closeAfterStart pl @ [pw],
                  closeAfterWait := closeAfterWait pl @ [pr]\<rparr>, w'))"

text \<open>
  Running one task. The input task clears a skipped copy error, then closes \<open>pw\<close> and
  reports the error of the close when it has none yet. An output task copies into its
  buffer, closes \<open>pr\<close> and reports the error of the copy.
\<close>

record buffers =
  stdout :: limitBuffer
  stderr :: limitBuffer

fun run_relay :: "env \<Rightarrow> relay \<Rightarrow> buffers \<Rightarrow> world \<Rightarrow> go_error option \<times> buffers \<times> world" where
  "run_relay e (CopyIn r pw) bs w =
     (let err = stdin_copy_err e;
          err = (if skipStdinCopyError err then None else err);
          err1 = stdin_close_err e;
          err = (if err = None then err1 else err)
      in (err, bs, Close pw w))"
| "run_relay e (CopyOut Stdout pr) bs w =
     (case io_Copy (stdout bs) (received e Stdout) (read_err e Stdout) of
        (err, b) \<Rightarrow> (err, bs\<lparr>stdout := b\<rparr>, Close pr w))"
| "run_relay e (CopyOut Stderr pr) bs w =
     (case io_Copy (stderr bs) (received e Stderr) (read_err e Stderr) of
        (err, b) \<Rightarrow> (err, bs\<lparr>stderr := b\<rparr>, Close pr w))"

fun run_relays ::
  "env \<Rightarrow> relay list \<Rightarrow> buffers \<Rightarrow> world \<Rightarrow> go_error option list \<times> buffers \<times> world" where
  "run_relays e [] bs w = ([], bs, w)"
| "run_relays e (fn # fns) bs w =
     (case run_relay e fn bs w of
        (err, bs', w') \<Rightarrow>
          (case run_relays e fns bs' w' of (errs, bs'', w'') \<Rightarrow> (err # errs, bs'', w'')))"

text \<open>
  The results arrive on \<open>errch\<close> in the order in which the tasks finish. The loop over
  \<open>errch\<close> keeps the first error it receives.
\<close>

definition arrivals :: "env \<Rightarrow> go_error option list \<Rightarrow> go_error option list" where
  "arrivals e errs =
     map snd (sort_key fst (zip (map (completion_rank e) [0..<length errs]) errs))"

definition collect :: "go_error option list \<Rightarrow> go_error option" where
  "collect errs =
     foldl (\<lambda>copyError err. if err \<noteq> None \<and> copyError = None then err else copyError) None errs"

section \<open>Process launcher\<close>

text \<open>
  \<open>syscall.UTF16PtrFromString\<close> fails (with \<open>EINVAL\<close>) exactly on a string that
  contains a NUL byte.
\<close>

definition utf16_ok :: "string \<Rightarrow> bool" where
  "utf16_ok s = (CHR 0x00 \<notin> set s)"

abbreviation EINVAL_text :: string where "EINVAL_text \<equiv> ''invalid argument''"

text \<open>
  The loop over \<open>attr.Files\<close>: a file greater than 0 is duplicated, the duplicate is
  stored in \<open>fd[i]\<close> and its close is deferred; a failure returns at once. The triple
  returned holds the error or \<open>fd\<close>, the world, and the deferred closes, last first.
\<close>

fun dup_loop ::
  "env \<Rightarrow> handle list \<Rightarrow> nat \<Rightarrow> handle list \<Rightarrow> world \<Rightarrow> resource list
     \<Rightarrow> (string + handle list) \<times> world \<times> resource list" where
  "dup_loop e [] i fds w deferred = (Inr fds, w, deferred)"
| "dup_loop e (f # files) i fds w deferred =
     (if f > 0 then
        (case dup_result e i of
           Inl err \<Rightarrow> (Inl err, w, deferred)
         | Inr h \<Rightarrow>
             dup_loop e files (i + 1) (fds @ [h])
               (w\<lparr>open_res := open_res w @ [Duplicate i]\<rparr>) (Duplicate i # deferred))
      else dup_loop e files (i + 1) (fds @ [0]) w deferred)"

definition run_deferred :: "resource list \<Rightarrow> world \<Rightarrow> world" where
  "run_deferred deferred w = foldl (\<lambda>w r. w\<lparr>open_res := removeAll r (open_res w)\<rparr>) w deferred"

definition startProcess_body ::
  "string \<Rightarrow> string list \<Rightarrow> handle list \<Rightarrow> env \<Rightarrow> world
     \<Rightarrow> (exec_error + nat) \<times> world \<times> resource list" where
  "startProcess_body argv0 argv files e w =
     (if \<not> utf16_ok argv0 then (Inl (CommandEncodingError EINVAL_text), w, [])
      else
        let cmdline = makeCmdLine argv0 argv in
        if \<not> utf16_ok cmdline then (Inl (CmdlineEncodingError EINVAL_text), w, [])
        else
          (case dup_loop e files 0 [] w [] of
             (Inl err, w1, deferred) \<Rightarrow> (Inl (HandleDuplicationError err), w1, deferred)
           | (Inr fds, w1, deferred) \<Rightarrow>
               (case getPasswordFromRegistry e of
                  Inl err \<Rightarrow> (Inl err, w1, deferred)
                | Inr password \<Rightarrow>
                    let w2 = w1\<lparr>spawn_request := Some (argv0, cmdline, password, fds)\<rparr> in
                    (case create_process e of
                       Inl err \<Rightarrow> (Inl (ProcessCreationError err), w2, deferred)
                     | Inr pid \<Rightarrow>
                         let w3 = w2\<lparr>process_created := True\<rparr> in
                         (case find_process e of
                            Some err \<Rightarrow> (Inl (FindProcessError err), w3, deferred)
                          | None \<Rightarrow> (Inr pid, w3, deferred))))))"

definition startProcess ::
  "string \<Rightarrow> string list \<Rightarrow> handle list \<Rightarrow> env \<Rightarrow> world \<Rightarrow> (exec_error + nat) \<times> world" where
  "startProcess argv0 argv files e w =
     (case startProcess_body argv0 argv files e w of
        (r, w', deferred) \<Rightarrow> (r, run_deferred deferred w'))"

section \<open>Execution controller\<close>

text \<open>
  The value of a call: the two results of \<open>execCommand\<close> (\<open>None\<close> for \<open>nil\<close>), and
  what the call leaves behind: the world, the two buffers and \<open>copyError\<close>.
\<close>

record outcome =
  ret_bytes :: "byte list option"
  ret_err :: "exec_error option"
  final :: world
  copyError :: "go_error option"
  bufs :: buffers

text \<open>
  The timeout handed to \<open>context.WithTimeout\<close> is
  \<open>time.Duration(secretBackendTimeout) * time.Second\<close>: a product of 64-bit signed
  integers, counted in nanoseconds, which wraps around when it overflows.
\<close>

definition timeout_duration :: "config \<Rightarrow> int" where
  "timeout_duration cfg = sint (word_of_int (secretBackendTimeout cfg) * 1000000000 :: 64 word)"

text \<open>
  \<open>ctx.Err() == context.DeadlineExceeded\<close> when it is read at the end: the deadline
  has passed, at creation already for a duration that is not positive.
\<close>

definition deadline_exceeded :: "config \<Rightarrow> env \<Rightarrow> bool" where
  "deadline_exceeded cfg e =
     (timeout_duration cfg \<le> 0 \<or> watcher_kills e \<or> deadline_after_wait e)"

definition classify :: "config \<Rightarrow> env \<Rightarrow> buffers \<Rightarrow> byte list option \<times> exec_error option" where
  "classify cfg e bs =
     (case wait_err e of
        Some err \<Rightarrow>
          if deadline_exceeded cfg e then (None, Some (TimeoutError (secretBackendCommand cfg)))
          else (None, Some (ProcessWaitError (secretBackendCommand cfg) err))
      | None \<Rightarrow>
          if \<not> exit_success e then (None, Some (NonZeroExitError (secretBackendCommand cfg)))
          else (Some (buf (stdout bs)), None))"

text \<open>
  \<open>execCommand\<close> after \<open>startProcess\<close> has succeeded: the ends in \<open>closeAfterStart\<close>
  are closed, the tasks and the watcher run while the process is waited for, the results
  of the tasks are collected, the ends in \<open>closeAfterWait\<close> are closed and the result is
  classified.
\<close>

definition run_started :: "config \<Rightarrow> env \<Rightarrow> plumbing \<Rightarrow> buffers \<Rightarrow> world \<Rightarrow> outcome" where
  "run_started cfg e pl bs w =
     (let w1 = closeFileList (closeAfterStart pl) w in
      case run_relays e (goroutine pl) bs w1 of
        (errs, bs', w2) \<Rightarrow>
          let w3 = w2\<lparr>process_killed := watcher_kills e\<rparr>;
              copyError = collect (arrivals e errs);
              w4 = closeFileList (closeAfterWait pl) w3;
              (bytes, err) = classify cfg e bs'
          in \<lparr>ret_bytes = bytes, ret_err = err, final = w4, copyError = copyError, bufs = bs'\<rparr>)"

definition failed :: "exec_error \<Rightarrow> buffers \<Rightarrow> world \<Rightarrow> outcome" where
  "failed err bs w = \<lparr>ret_bytes = None, ret_err = Some err, final = w, copyError = None, bufs = bs\<rparr>"

definition execCommand :: "config \<Rightarrow> env \<Rightarrow> string \<Rightarrow> outcome" where
  "execCommand cfg e inputPayload =
     (let bs = \<lparr>stdout = \<lparr>buf = [], max_bytes = secretBackendOutputMaxSize cfg\<rparr>,
                stderr = \<lparr>buf = [], max_bytes = secretBackendOutputMaxSize cfg\<rparr>\<rparr>;
          pl = \<lparr>goroutine = [], closeAfterStart = [], closeAfterWait = []\<rparr>
      in
      case setInputPipe inputPayload e pl world0 of
        Inl err \<Rightarrow> failed err bs world0
      | Inr (pl1, w1) \<Rightarrow>
      (case setOutputPipe Stdout e pl1 w1 of
        Inl err \<Rightarrow> failed err bs w1
      | Inr (pl2, w2) \<Rightarrow>
      (case setOutputPipe Stderr e pl2 w2 of
        Inl err \<Rightarrow> failed err bs w2
      | Inr (pl3, w3) \<Rightarrow>
      (case startProcess (secretBackendCommand cfg) (secretBackendArguments cfg)
              (map fd (closeAfterStart pl3)) e w3 of
        (Inl err, w4) \<Rightarrow>
          failed err bs (closeFileList (closeAfterWait pl3) (closeFileList (closeAfterStart pl3) w4))
      | (Inr pid, w4) \<Rightarrow> run_started cfg e pl3 bs w4))))"

section \<open>Conditions on the environment and examples\<close>

text \<open>
  The result that the task feeding standard input reports, and the results of the three
  tasks in the order of \<open>goroutine\<close>.
\<close>

definition copy_in_result :: "env \<Rightarrow> go_error option" where
  "copy_in_result e =
     (if skipStdinCopyError (stdin_copy_err e) \<or> stdin_copy_err e = None then stdin_close_err e
      else stdin_copy_err e)"

definition relay_results :: "env \<Rightarrow> go_error option list" where
  "relay_results e = [copy_in_result e, read_err e Stdout, read_err e Stderr]"

definition bufs0 :: "config \<Rightarrow> buffers" where
  "bufs0 cfg = \<lparr>stdout = \<lparr>buf = [], max_bytes = secretBackendOutputMaxSize cfg\<rparr>,
               stderr = \<lparr>buf = [], max_bytes = secretBackendOutputMaxSize cfg\<rparr>\<rparr>"

definition isOK :: "'a + 'b \<Rightarrow> bool" where
  "isOK r = (case r of Inl _ \<Rightarrow> False | Inr _ \<Rightarrow> True)"

text \<open>
  Every step before the credential is fetched succeeds: the three pipes are created, the
  command and the command line have no NUL byte, and the three handles are duplicated.
\<close>

definition reaches_credential_fetch :: "config \<Rightarrow> env \<Rightarrow> bool" where
  "reaches_credential_fetch cfg e =
     (isOK (pipe_result e 0) \<and> isOK (pipe_result e 1) \<and> isOK (pipe_result e 2) \<and>
      utf16_ok (secretBackendCommand cfg) \<and>
      utf16_ok (makeCmdLine (secretBackendCommand cfg) (secretBackendArguments cfg)) \<and>
      isOK (dup_result e 0) \<and> isOK (dup_result e 1) \<and> isOK (dup_result e 2))"

text \<open>The child process is started: moreover the password is read and the process is created and found.\<close>

definition startup_succeeds :: "config \<Rightarrow> env \<Rightarrow> bool" where
  "startup_succeeds cfg e =
     (reaches_credential_fetch cfg e \<and>
      open_key e = None \<and> isOK (get_string_value e) \<and>
      isOK (create_process e) \<and> find_process e = None)"

text \<open>
  The credential entry is absent from the registry: the key does not exist, or the key
  exists and has no value named after the user.
\<close>

definition credential_absent :: "env \<Rightarrow> bool" where
  "credential_absent e =
     (open_key e = Some ErrNotExist \<or>
      (open_key e = None \<and> get_string_value e = Inl ErrNotExist))"

text \<open>
  An example: a backend that answers five bytes in two chunks, with a limit of four bytes
  and every system call succeeding.
\<close>

definition example_config :: config where
  "example_config =
     \<lparr>secretBackendCommand = ''secret.exe'', secretBackendArguments = [''--payload''],
      secretBackendTimeout = 5, secretBackendOutputMaxSize = 4\<rparr>"

definition example_env :: env where
  "example_env =
     \<lparr>pipe_result = (\<lambda>i. Inr (10 + 2 * i, 11 + 2 * i)),
      dup_result = (\<lambda>i. Inr (20 + i)),
      open_key = None,
      get_string_value = Inr ''pw'',
      create_process = Inr 4242,
      find_process = None,
      stdin_copy_err = None,
      stdin_close_err = None,
      written = (\<lambda>s. case s of Stdout \<Rightarrow> [[1, 2, 3], [4, 5]] | Stderr \<Rightarrow> []),
      read_fault = (\<lambda>s. None),
      completion_rank = (\<lambda>i. i),
      watcher_kills = False,
      deadline_after_wait = False,
      wait_err = None,
      exit_success = True\<rparr>"

text \<open>The same backend, which also writes five bytes to its standard error.\<close>

definition noisy_env :: env where
  "noisy_env = example_env\<lparr>written := (\<lambda>s. case s of Stdout \<Rightarrow> [[1, 2, 3], [4, 5]]
                                                  | Stderr \<Rightarrow> [[6, 7], [8, 9, 10]])\<rparr>"

text \<open>
  The world and the three slices once the three pipes have been created, for the handles
  \<open>p0\<close>, \<open>p1\<close>, \<open>p2\<close> (read end, write end) that \<open>os.Pipe\<close> returned.
\<close>

definition world3 :: world where
  "world3 = \<lparr>open_res = [PipeRead 0, PipeWrite 0, PipeRead 1, PipeWrite 1, PipeRead 2, PipeWrite 2],
             n_pipes = 3, spawn_request = None, process_created = False, process_killed = False\<rparr>"

definition plumbing3 :: "string \<Rightarrow> handle \<times> handle \<Rightarrow> handle \<times> handle \<Rightarrow> handle \<times> handle \<Rightarrow> plumbing" where
  "plumbing3 r p0 p1 p2 =
     \<lparr>goroutine = [CopyIn r \<lparr>res = PipeWrite 0, fd = snd p0\<rparr>,
                    CopyOut Stdout \<lparr>res = PipeRead 1, fd = fst p1\<rparr>,
                    CopyOut Stderr \<lparr>res = PipeRead 2, fd = fst p2\<rparr>],
      closeAfterStart = [\<lparr>res = PipeRead 0, fd = fst p0\<rparr>,
                         \<lparr>res = PipeWrite 1, fd = snd p1\<rparr>,
                         \<lparr>res = PipeWrite 2, fd = snd p2\<rparr>],
      closeAfterWait = [\<lparr>res = PipeWrite 0, fd = snd p0\<rparr>,
                        \<lparr>res = PipeRead 1, fd = fst p1\<rparr>,
                        \<lparr>res = PipeRead 2, fd = fst p2\<rparr>]\<rparr>"

section \<open>Escaping and parsing\<close>

text \<open>
  The escaping loop and the parser move in step: the parser's count of pending
  backslashes equals the escaper's count \<open>slashes\<close>, and what the parser has read plus the
  pending backslashes is the part of the argument consumed so far.
\<close>

lemma EscapeArg_scan_eq:
  "EscapeArg_scan s n h =
     (n + length (filter (\<lambda>c. c = DQUOTE \<or> c = BSLASH) s), h \<or> has_space s)"
  by (induction s arbitrary: n h) (auto simp: has_space_def)

lemma EscapeArg_fill_acc:
  "EscapeArg_fill s qs sl = (qs @ fst (EscapeArg_fill s [] sl), snd (EscapeArg_fill s [] sl))"
proof (induction s arbitrary: qs sl)
  case Nil
  then show ?case by simp
next
  case (Cons c s)
  show ?case
    using Cons [where qs = "qs @ [c]" and sl = "sl + 1"] Cons [where qs = "[c]" and sl = "sl + 1"]
      Cons [where qs = "qs @ [c]" and sl = 0] Cons [where qs = "[c]" and sl = 0]
      Cons [where qs = "qs @ replicate sl BSLASH @ [BSLASH, c]" and sl = 0]
      Cons [where qs = "replicate sl BSLASH @ [BSLASH, c]" and sl = 0]
    by auto
qed

lemma EscapeArg_fill_plain:
  "filter (\<lambda>c. c = DQUOTE \<or> c = BSLASH) s = [] \<Longrightarrow> fst (EscapeArg_fill s qs sl) = qs @ s"
  by (induction s arbitrary: qs sl) (auto split: if_splits)

lemma EscapeArg_fill_no_quote:
  "DQUOTE \<notin> set s \<Longrightarrow> fst (EscapeArg_fill s qs sl) = qs @ s"
  by (induction s arbitrary: qs sl) (auto split: if_splits)

lemma EscapeArg_unfold:
  "EscapeArg v =
     (if v = [] then [DQUOTE, DQUOTE]
      else if has_space v
        then DQUOTE # fst (EscapeArg_fill v [] 0) @ replicate (snd (EscapeArg_fill v [] 0)) BSLASH @ [DQUOTE]
        else fst (EscapeArg_fill v [] 0))"
proof -
  have "fst (EscapeArg_fill v [DQUOTE] 0) = DQUOTE # fst (EscapeArg_fill v [] 0)"
    "snd (EscapeArg_fill v [DQUOTE] 0) = snd (EscapeArg_fill v [] 0)"
    using EscapeArg_fill_acc [of v "[DQUOTE]" 0] by simp_all
  then show ?thesis
    using EscapeArg_fill_plain [of v "[]" 0]
    by (auto simp: EscapeArg_def EscapeArg_scan_eq split: prod.splits)
qed

lemma rn_bslashes:
  "readNextArg_loop (replicate k BSLASH @ cmd) b inq ns = readNextArg_loop cmd b inq (ns + k)"
  by (induction k arbitrary: ns) (auto simp: readNextArg_loop.simps(2))

lemma rn_escaped_quote:
  "readNextArg_loop (replicate sl BSLASH @ BSLASH # DQUOTE # cmd) b inq sl =
     readNextArg_loop cmd (b @ replicate sl BSLASH @ [DQUOTE]) inq 0"
proof -
  have "Suc (sl + sl) div 2 = sl" "Suc (sl + sl) mod 2 = 1" by presburger+
  then have "readNextArg_loop (DQUOTE # cmd) b inq (Suc (sl + sl)) =
      readNextArg_loop cmd (b @ replicate sl BSLASH @ [DQUOTE]) inq 0"
    by (subst readNextArg_loop.simps(2)) simp
  moreover have "readNextArg_loop (BSLASH # DQUOTE # cmd) b inq (sl + sl) =
      readNextArg_loop (DQUOTE # cmd) b inq (Suc (sl + sl))"
    by (subst readNextArg_loop.simps(2)) simp
  ultimately show ?thesis
    using rn_bslashes [of sl "BSLASH # DQUOTE # cmd" b inq sl] by simp
qed

lemma rn_fill:
  assumes "inq \<or> \<not> has_space s"
  shows "\<exists>b'. readNextArg_loop (fst (EscapeArg_fill s [] sl) @ rest) b inq sl =
               readNextArg_loop rest b' inq (snd (EscapeArg_fill s [] sl)) \<and>
             b' @ replicate (snd (EscapeArg_fill s [] sl)) BSLASH = b @ replicate sl BSLASH @ s"
  using assms
proof (induction s arbitrary: b sl)
  case Nil
  then show ?case by simp
next
  case (Cons c s)
  then have sp: "inq \<or> \<not> has_space s" and c: "inq \<or> (c \<noteq> SPACE \<and> c \<noteq> TAB)"
    by (auto simp: has_space_def)
  show ?case
  proof (cases "c = BSLASH")
    case True
    from Cons.IH [OF sp, where b = b and sl = "sl + 1"] obtain b' where
      "readNextArg_loop (fst (EscapeArg_fill s [] (sl + 1)) @ rest) b inq (sl + 1) =
         readNextArg_loop rest b' inq (snd (EscapeArg_fill s [] (sl + 1)))"
      "b' @ replicate (snd (EscapeArg_fill s [] (sl + 1))) BSLASH = b @ replicate (sl + 1) BSLASH @ s"
      by blast
    then show ?thesis
      using True EscapeArg_fill_acc [of s "[BSLASH]" "Suc sl"]
      by (auto simp: readNextArg_loop.simps(2) replicate_append_same)
  next
    case nb: False
    show ?thesis
    proof (cases "c = DQUOTE")
      case True
      from Cons.IH [OF sp, where b = "b @ replicate sl BSLASH @ [DQUOTE]" and sl = 0] obtain b' where
        "readNextArg_loop (fst (EscapeArg_fill s [] 0) @ rest) (b @ replicate sl BSLASH @ [DQUOTE]) inq 0 =
           readNextArg_loop rest b' inq (snd (EscapeArg_fill s [] 0))"
        "b' @ replicate (snd (EscapeArg_fill s [] 0)) BSLASH = (b @ replicate sl BSLASH @ [DQUOTE]) @ replicate 0 BSLASH @ s"
        by blast
      then show ?thesis
        using True EscapeArg_fill_acc [of s "replicate sl BSLASH @ [BSLASH, DQUOTE]" 0]
          rn_escaped_quote [of sl "fst (EscapeArg_fill s [] 0) @ rest" b inq]
        by auto
    next
      case nq: False
      from Cons.IH [OF sp, where b = "b @ replicate sl BSLASH @ [c]" and sl = 0] obtain b' where
        "readNextArg_loop (fst (EscapeArg_fill s [] 0) @ rest) (b @ replicate sl BSLASH @ [c]) inq 0 =
           readNextArg_loop rest b' inq (snd (EscapeArg_fill s [] 0))"
        "b' @ replicate (snd (EscapeArg_fill s [] 0)) BSLASH = (b @ replicate sl BSLASH @ [c]) @ replicate 0 BSLASH @ s"
        by blast
      then show ?thesis
        using nb nq c EscapeArg_fill_acc [of s "[c]" 0]
        by (auto simp: readNextArg_loop.simps(2))
    qed
  qed
qed

lemma rn_open_quote:
  "readNextArg_loop (DQUOTE # cmd) b False 0 = readNextArg_loop cmd b True 0"
  by (subst readNextArg_loop.simps(2)) (simp split: list.splits)

lemma rn_close_quote:
  assumes "rest = [] \<or> hd rest = SPACE"
  shows "readNextArg_loop (replicate sl BSLASH @ DQUOTE # rest) b True sl =
           (b @ replicate sl BSLASH, tl rest)"
proof -
  have "(sl + sl) div 2 = sl" "(sl + sl) mod 2 = 0" by presburger+
  then have "readNextArg_loop (DQUOTE # rest) b True (sl + sl) =
      readNextArg_loop rest (b @ replicate sl BSLASH) False 0"
    using assms by (subst readNextArg_loop.simps(2)) (auto split: list.splits)
  moreover have "readNextArg_loop rest (b @ replicate sl BSLASH) False 0 = (b @ replicate sl BSLASH, tl rest)"
    using assms by (cases rest) (auto simp: readNextArg_loop.simps(2))
  ultimately show ?thesis
    using rn_bslashes [of sl "DQUOTE # rest" b True sl] by simp
qed

lemma rn_end_unquoted:
  assumes "rest = [] \<or> hd rest = SPACE"
  shows "readNextArg_loop rest b False sl = (b @ replicate sl BSLASH, tl rest)"
  using assms by (cases rest) (auto simp: readNextArg_loop.simps(2))

lemma readNextArg_EscapeArg:
  assumes "rest = [] \<or> hd rest = SPACE"
  shows "readNextArg (EscapeArg v @ rest) = (v, tl rest)"
proof (cases "v = []")
  case True
  have "readNextArg_loop (DQUOTE # DQUOTE # rest) [] False 0 = readNextArg_loop (DQUOTE # rest) [] True 0"
    by (rule rn_open_quote)
  also have "\<dots> = ([], tl rest)"
    using rn_close_quote [OF assms, of 0 "[]"] by simp
  finally show ?thesis using True by (simp add: EscapeArg_unfold readNextArg_def)
next
  case ne: False
  show ?thesis
  proof (cases "has_space v")
    case True
    obtain b' where b': "readNextArg_loop (fst (EscapeArg_fill v [] 0) @ replicate (snd (EscapeArg_fill v [] 0)) BSLASH @ DQUOTE # rest) [] True 0 =
          readNextArg_loop (replicate (snd (EscapeArg_fill v [] 0)) BSLASH @ DQUOTE # rest) b' True (snd (EscapeArg_fill v [] 0))"
        "b' @ replicate (snd (EscapeArg_fill v [] 0)) BSLASH = [] @ replicate 0 BSLASH @ v"
      using rn_fill [of True v 0 "replicate (snd (EscapeArg_fill v [] 0)) BSLASH @ DQUOTE # rest" "[]"]
      by blast
    then show ?thesis
      using True ne rn_close_quote [OF assms, of "snd (EscapeArg_fill v [] 0)" b']
      by (simp add: EscapeArg_unfold readNextArg_def rn_open_quote)
  next
    case False
    obtain b' where b': "readNextArg_loop (fst (EscapeArg_fill v [] 0) @ rest) [] False 0 =
          readNextArg_loop rest b' False (snd (EscapeArg_fill v [] 0))"
        "b' @ replicate (snd (EscapeArg_fill v [] 0)) BSLASH = [] @ replicate 0 BSLASH @ v"
      using rn_fill [of False v 0 rest "[]"] False by blast
    then show ?thesis
      using False ne rn_end_unquoted [OF assms, of b' "snd (EscapeArg_fill v [] 0)"]
      by (simp add: EscapeArg_unfold readNextArg_def)
  qed
qed

lemma EscapeArg_head:
  "EscapeArg v \<noteq> [] \<and> hd (EscapeArg v) \<noteq> SPACE \<and> hd (EscapeArg v) \<noteq> TAB"
proof (cases v)
  case Nil
  then show ?thesis by (simp add: EscapeArg_unfold)
next
  case (Cons c s)
  have "fst (EscapeArg_fill v [] 0) \<noteq> [] \<and>
        (\<not> has_space v \<longrightarrow> hd (fst (EscapeArg_fill v [] 0)) \<noteq> SPACE \<and> hd (fst (EscapeArg_fill v [] 0)) \<noteq> TAB)"
    using EscapeArg_fill_acc [of s "[c]" 0] EscapeArg_fill_acc [of s "[c]" 1]
      EscapeArg_fill_acc [of s "[BSLASH, c]" 0]
    by (auto simp: Cons has_space_def)
  then show ?thesis by (simp add: EscapeArg_unfold Cons)
qed

lemma commandLineToArgv_Nil: "commandLineToArgv [] = []"
  by (simp add: commandLineToArgv.simps)

lemma commandLineToArgv_skip: "commandLineToArgv (SPACE # cmd) = commandLineToArgv cmd"
  by (subst commandLineToArgv.simps) simp

lemma commandLineToArgv_EscapeArg:
  assumes "rest = [] \<or> hd rest = SPACE"
  shows "commandLineToArgv (EscapeArg v @ rest) = v # commandLineToArgv (tl rest)"
  using EscapeArg_head [of v] readNextArg_EscapeArg [OF assms, of v]
  by (subst commandLineToArgv.simps) (auto simp: hd_append)

lemma commandLineToArgv_joinArgs: "commandLineToArgv (joinArgs args) = args"
proof (induction args rule: joinArgs.induct)
  case 1
  then show ?case by (simp add: commandLineToArgv_Nil)
next
  case (2 v)
  then show ?case using commandLineToArgv_EscapeArg [of "[]" v] by (simp add: commandLineToArgv_Nil)
next
  case (3 v w vs)
  then show ?case using commandLineToArgv_EscapeArg [of "SPACE # joinArgs (w # vs)" v] by simp
qed

lemma makeCmdLine_concat:
  "makeCmdLine cmd args = cmd @ concat (map (\<lambda>v. SPACE # EscapeArg v) args)"
  unfolding makeCmdLine_def by (induction args arbitrary: cmd) simp_all

lemma concat_joinArgs: "concat (map (\<lambda>v. SPACE # EscapeArg v) (v # vs)) = SPACE # joinArgs (v # vs)"
  by (induction vs arbitrary: v) simp_all

lemma EscapeArg_plain_token: "plain_token cmd \<Longrightarrow> EscapeArg cmd = cmd"
  using EscapeArg_fill_no_quote [of cmd "[]" 0]
  by (auto simp: plain_token_def EscapeArg_unfold has_space_def list_all_iff list_ex_iff)

lemma makeCmdLine_joinArgs:
  assumes "plain_token cmd"
  shows "makeCmdLine cmd args = joinArgs (cmd # args)"
proof (cases args)
  case Nil
  then show ?thesis by (simp add: makeCmdLine_concat EscapeArg_plain_token [OF assms])
next
  case (Cons v vs)
  have "makeCmdLine cmd args = cmd @ SPACE # joinArgs (v # vs)"
    unfolding makeCmdLine_concat Cons concat_joinArgs ..
  then show ?thesis by (simp add: Cons EscapeArg_plain_token [OF assms])
qed

lemma makeCmdLine_arguments_roundtrip: "commandLineToArgv (drop (length cmd) (makeCmdLine cmd args)) = args"
proof (cases args)
  case Nil
  then show ?thesis by (simp add: makeCmdLine_concat commandLineToArgv_Nil)
next
  case (Cons v vs)
  have "drop (length cmd) (makeCmdLine cmd args) = SPACE # joinArgs (v # vs)"
    unfolding makeCmdLine_concat Cons concat_joinArgs by simp
  then show ?thesis by (simp add: Cons commandLineToArgv_skip commandLineToArgv_joinArgs)
qed

section \<open>The buffer and the relay tasks\<close>

lemma isOK_E: "isOK r \<Longrightarrow> \<exists>x. r = Inr x"
  by (cases r) (simp_all add: isOK_def)

lemma take_budget:
  "take (nat m) p @ take (nat (m - int (min (length p) (nat m)))) q = take (nat m) (p @ q)"
proof (cases "nat m \<le> length p")
  case True
  then have "nat (m - int (min (length p) (nat m))) = 0" by (simp add: min_def)
  with True show ?thesis by simp
next
  case False
  then have "nat (m - int (min (length p) (nat m))) = nat m - length p"
    by (simp add: min_def)
  with False show ?thesis by simp
qed

lemma limitBuffer_io_Copy:
  "io_Copy w ps er =
     (er, w\<lparr>buf := buf w @ take (nat (max_bytes w - int (length (buf w)))) (concat ps)\<rparr>)"
proof (induction ps arbitrary: w)
  case Nil
  then show ?case by simp
next
  case (Cons p ps)
  show ?case
    using take_budget [of "max_bytes w - int (length (buf w))" p "concat ps"]
    by (simp add: limitBuffer_Write_def Cons algebra_simps)
qed

lemma closeFileList_eq:
  "closeFileList fs w = w\<lparr>open_res := filter (\<lambda>r. r \<notin> set (map res fs)) (open_res w)\<rparr>"
  unfolding closeFileList_def
proof (induction fs arbitrary: w)
  case Nil
  then show ?case by simp
next
  case (Cons f fs)
  show ?case
    by (simp add: Cons, simp add: Close_def removeAll_filter_not_eq eq_commute [of "res f"])
qed

lemma run_relays_three:
  "run_relays e [CopyIn r f0, CopyOut Stdout f1, CopyOut Stderr f2] bs w =
     (relay_results e,
      bs\<lparr>stdout := snd (io_Copy (stdout bs) (received e Stdout) (read_err e Stdout)),
         stderr := snd (io_Copy (stderr bs) (received e Stderr) (read_err e Stderr))\<rparr>,
      Close f2 (Close f1 (Close f0 w)))"
  by (auto simp: limitBuffer_io_Copy relay_results_def copy_in_result_def Let_def)

lemma run_started_three:
  assumes "goroutine pl = [CopyIn r f0, CopyOut Stdout f1, CopyOut Stderr f2]"
  shows "ret_bytes (run_started cfg e pl bs w) =
           fst (classify cfg e (bs\<lparr>stdout := snd (io_Copy (stdout bs) (received e Stdout) (read_err e Stdout)),
                                  stderr := snd (io_Copy (stderr bs) (received e Stderr) (read_err e Stderr))\<rparr>))"
    and "ret_err (run_started cfg e pl bs w) =
           snd (classify cfg e (bs\<lparr>stdout := snd (io_Copy (stdout bs) (received e Stdout) (read_err e Stdout)),
                                  stderr := snd (io_Copy (stderr bs) (received e Stderr) (read_err e Stderr))\<rparr>))"
    and "bufs (run_started cfg e pl bs w) =
           bs\<lparr>stdout := snd (io_Copy (stdout bs) (received e Stdout) (read_err e Stdout)),
              stderr := snd (io_Copy (stderr bs) (received e Stderr) (read_err e Stderr))\<rparr>"
    and "copyError (run_started cfg e pl bs w) = collect (arrivals e (relay_results e))"
    and "process_killed (final (run_started cfg e pl bs w)) = watcher_kills e"
  by (simp_all add: run_started_def assms run_relays_three closeFileList_eq Let_def
        del: run_relays.simps run_relay.simps split: prod.splits)

lemma dup_loop_three:
  assumes "dup_result e 0 = Inr d0" "dup_result e 1 = Inr d1" "dup_result e 2 = Inr d2"
  shows "\<exists>fds w' deferred. dup_loop e [h0, h1, h2] 0 [] w [] = (Inr fds, w', deferred) \<and>
           spawn_request w' = spawn_request w \<and> process_created w' = process_created w"
  using assms
  by (cases "0 < h0"; cases "0 < h1"; cases "0 < h2") (simp_all add: numeral_2_eq_2)

lemma startProcess_ok:
  assumes "utf16_ok argv0" "utf16_ok (makeCmdLine argv0 argv)"
    and "dup_result e 0 = Inr d0" "dup_result e 1 = Inr d1" "dup_result e 2 = Inr d2"
    and "open_key e = None" "get_string_value e = Inr password"
    and "create_process e = Inr pid" "find_process e = None"
  shows "\<exists>w'. startProcess argv0 argv [h0, h1, h2] e w = (Inr pid, w')"
proof -
  from dup_loop_three [OF assms(3-5), of h0 h1 h2 w]
  obtain fds w' deferred where "dup_loop e [h0, h1, h2] 0 [] w [] = (Inr fds, w', deferred)"
    by blast
  then show ?thesis
    using assms
    by (simp add: startProcess_def startProcess_body_def getPasswordFromRegistry_def Let_def)
qed

lemma execCommand_started:
  assumes "startup_succeeds cfg e"
  shows "\<exists>pl w f0 f1 f2. execCommand cfg e payload = run_started cfg e pl (bufs0 cfg) w \<and>
           goroutine pl = [CopyIn payload f0, CopyOut Stdout f1, CopyOut Stderr f2]"
proof -
  from assms obtain p0 p1 p2 d0 d1 d2 password pid where
    p: "pipe_result e 0 = Inr p0" "pipe_result e 1 = Inr p1" "pipe_result e 2 = Inr p2"
    and d: "dup_result e 0 = Inr d0" "dup_result e 1 = Inr d1" "dup_result e 2 = Inr d2"
    and c: "get_string_value e = Inr password" "create_process e = Inr pid"
    unfolding startup_succeeds_def reaches_credential_fetch_def by (metis isOK_E)
  from assms have u: "utf16_ok (secretBackendCommand cfg)"
    "utf16_ok (makeCmdLine (secretBackendCommand cfg) (secretBackendArguments cfg))"
    "open_key e = None" "find_process e = None"
    by (simp_all add: startup_succeeds_def reaches_credential_fetch_def)
  obtain w' where "startProcess (secretBackendCommand cfg) (secretBackendArguments cfg)
      [fst p0, snd p1, snd p2] e
      \<lparr>open_res = [PipeRead 0, PipeWrite 0, PipeRead 1, PipeWrite 1, PipeRead 2, PipeWrite 2],
        n_pipes = 3, spawn_request = None, process_created = False, process_killed = False\<rparr>
      = (Inr pid, w')"
    using startProcess_ok [OF u(1,2) d u(3) c(1) c(2) u(4)] by blast
  then have "execCommand cfg e payload =
      run_started cfg e
        \<lparr>goroutine = [CopyIn payload \<lparr>res = PipeWrite 0, fd = snd p0\<rparr>,
                       CopyOut Stdout \<lparr>res = PipeRead 1, fd = fst p1\<rparr>,
                       CopyOut Stderr \<lparr>res = PipeRead 2, fd = fst p2\<rparr>],
         closeAfterStart = [\<lparr>res = PipeRead 0, fd = fst p0\<rparr>,
                            \<lparr>res = PipeWrite 1, fd = snd p1\<rparr>,
                            \<lparr>res = PipeWrite 2, fd = snd p2\<rparr>],
         closeAfterWait = [\<lparr>res = PipeWrite 0, fd = snd p0\<rparr>,
                           \<lparr>res = PipeRead 1, fd = fst p1\<rparr>,
                           \<lparr>res = PipeRead 2, fd = fst p2\<rparr>]\<rparr>
        (bufs0 cfg) w'"
    using p
    by (cases p0; cases p1; cases p2)
       (simp add: execCommand_def setInputPipe_def setOutputPipe_def os_Pipe_def world0_def bufs0_def
          numeral_2_eq_2 numeral_3_eq_3)
  then show ?thesis
    by (intro exI conjI) (assumption, simp)
qed

lemma execCommand_started_outcome:
  assumes "startup_succeeds cfg e"
  shows "ret_bytes (execCommand cfg e inputPayload) =
           (if wait_err e = None \<and> exit_success e
            then Some (take (nat (secretBackendOutputMaxSize cfg)) (concat (received e Stdout)))
            else None)"
    and "ret_err (execCommand cfg e inputPayload) =
           snd (classify cfg e (bufs0 cfg))"
    and "buf (stdout (bufs (execCommand cfg e inputPayload))) =
           take (nat (secretBackendOutputMaxSize cfg)) (concat (received e Stdout))"
    and "buf (stderr (bufs (execCommand cfg e inputPayload))) =
           take (nat (secretBackendOutputMaxSize cfg)) (concat (received e Stderr))"
    and "copyError (execCommand cfg e inputPayload) = collect (arrivals e (relay_results e))"
    and "process_killed (final (execCommand cfg e inputPayload)) = watcher_kills e"
proof -
  from execCommand_started [OF assms, of inputPayload] obtain pl w f0 f1 f2 where
    "execCommand cfg e inputPayload = run_started cfg e pl (bufs0 cfg) w"
    "goroutine pl = [CopyIn inputPayload f0, CopyOut Stdout f1, CopyOut Stderr f2]"
    by blast
  then show
    "ret_bytes (execCommand cfg e inputPayload) =
           (if wait_err e = None \<and> exit_success e
            then Some (take (nat (secretBackendOutputMaxSize cfg)) (concat (received e Stdout)))
            else None)"
    "ret_err (execCommand cfg e inputPayload) = snd (classify cfg e (bufs0 cfg))"
    "buf (stdout (bufs (execCommand cfg e inputPayload))) =
           take (nat (secretBackendOutputMaxSize cfg)) (concat (received e Stdout))"
    "buf (stderr (bufs (execCommand cfg e inputPayload))) =
           take (nat (secretBackendOutputMaxSize cfg)) (concat (received e Stderr))"
    "copyError (execCommand cfg e inputPayload) = collect (arrivals e (relay_results e))"
    "process_killed (final (execCommand cfg e inputPayload)) = watcher_kills e"
    by (simp_all add: run_started_three classify_def limitBuffer_io_Copy bufs0_def
          split: option.splits)
qed

lemma collect_from:
  "foldl (\<lambda>copyError err. if err \<noteq> None \<and> copyError = None then err else copyError) acc errs =
     (if acc \<noteq> None then acc
      else case dropWhile (\<lambda>err. err = None) errs of [] \<Rightarrow> None | err # _ \<Rightarrow> err)"
  by (induction errs arbitrary: acc) auto

lemma collect_first:
  "collect errs = (case dropWhile (\<lambda>err. err = None) errs of [] \<Rightarrow> None | err # _ \<Rightarrow> err)"
  unfolding collect_def by (subst collect_from) simp

lemma arrivals_set: "set (arrivals e errs) = set errs"
proof -
  have "map snd (zip (map (completion_rank e) [0..<length errs]) errs) = errs"
    by (simp add: map_snd_zip)
  then have "set errs = snd ` set (zip (map (completion_rank e) [0..<length errs]) errs)"
    by (metis set_map)
  then show ?thesis by (simp add: arrivals_def)
qed

lemmas example_defs = example_config_def example_env_def startup_succeeds_def
  reaches_credential_fetch_def isOK_def utf16_ok_def makeCmdLine_def EscapeArg_def

lemma timeout_takes_priority_over_wait_error:
  assumes "startup_succeeds cfg e" and "watcher_kills e" and "wait_err e = Some err"
  shows "process_killed (final (execCommand cfg e inputPayload)) \<and>
         ret_err (execCommand cfg e inputPayload) = Some (TimeoutError (secretBackendCommand cfg)) \<and>
         ret_bytes (execCommand cfg e inputPayload) = None"
  using assms by (simp add: execCommand_started_outcome classify_def deadline_exceeded_def)

text \<open>
  A timeout of 9223372037 seconds overflows the 64-bit count of nanoseconds: the duration
  is negative and the context has expired when it is created.
\<close>

lemma timeout_duration_wraps:
  "timeout_duration example_config = 5000000000"
  "timeout_duration (example_config\<lparr>secretBackendTimeout := 9223372037\<rparr>) = - 9223372036709551616"
  by (simp_all add: timeout_duration_def example_config_def)

lemma expired_context_reports_timeout:
  assumes "startup_succeeds cfg e" and "timeout_duration cfg \<le> 0" and "wait_err e = Some err"
  shows "ret_err (execCommand cfg e inputPayload) = Some (TimeoutError (secretBackendCommand cfg))"
  using assms by (simp add: execCommand_started_outcome classify_def deadline_exceeded_def)

lemma wrapped_timeout_reports_timeout:
  "ret_err (execCommand (example_config\<lparr>secretBackendTimeout := 9223372037\<rparr>)
      (example_env\<lparr>wait_err := Some ''wait failed''\<rparr>) ''{}'') =
     Some (TimeoutError ''secret.exe'')"
proof -
  have "startup_succeeds (example_config\<lparr>secretBackendTimeout := 9223372037\<rparr>)
      (example_env\<lparr>wait_err := Some ''wait failed''\<rparr>)"
    by (simp add: example_defs)
  moreover have "timeout_duration (example_config\<lparr>secretBackendTimeout := 9223372037\<rparr>) \<le> 0"
    by (simp add: timeout_duration_def example_config_def)
  ultimately show ?thesis
    using expired_context_reports_timeout
      [of "example_config\<lparr>secretBackendTimeout := 9223372037\<rparr>"
          "example_env\<lparr>wait_err := Some ''wait failed''\<rparr>" "''wait failed''" "''{}''"]
    by (simp add: example_config_def example_env_def)
qed

lemma timeout_needs_wait_error:
  assumes "startup_succeeds cfg e" and "wait_err e = None"
  shows "ret_err (execCommand cfg e inputPayload) \<noteq> Some (TimeoutError (secretBackendCommand cfg))"
  using assms by (simp add: execCommand_started_outcome classify_def)

section \<open>The structure of a call\<close>

text \<open>
  \<open>execCommand\<close> returns at the first pipe that cannot be created; with three pipes it
  returns what \<open>startProcess\<close> decides. The functions called change the world in a few
  ways only: \<open>startProcess\<close> closes every duplicate it made, and records a request and a
  created process only after the password has been read.
\<close>

lemma execCommand_pipes_ok:
  assumes "pipe_result e 0 = Inr p0" "pipe_result e 1 = Inr p1" "pipe_result e 2 = Inr p2"
  shows "execCommand cfg e inputPayload =
     (case startProcess (secretBackendCommand cfg) (secretBackendArguments cfg)
             [fst p0, snd p1, snd p2] e world3 of
        (Inl err, w4) \<Rightarrow>
          failed err (bufs0 cfg)
            (closeFileList (closeAfterWait (plumbing3 inputPayload p0 p1 p2))
               (closeFileList (closeAfterStart (plumbing3 inputPayload p0 p1 p2)) w4))
      | (Inr pid, w4) \<Rightarrow> run_started cfg e (plumbing3 inputPayload p0 p1 p2) (bufs0 cfg) w4)"
  using assms
  by (cases p0; cases p1; cases p2)
     (simp add: execCommand_def setInputPipe_def setOutputPipe_def os_Pipe_def world0_def bufs0_def
        world3_def plumbing3_def numeral_2_eq_2 numeral_3_eq_3 Let_def
        split: prod.splits sum.splits)

lemma execCommand_pipe0_fails:
  assumes "pipe_result e 0 = Inl err"
  shows "execCommand cfg e inputPayload = failed (PipeCreationError err) (bufs0 cfg) world0"
  using assms
  by (simp add: execCommand_def setInputPipe_def os_Pipe_def world0_def bufs0_def)

lemma execCommand_pipe1_fails:
  assumes "pipe_result e 0 = Inr p0" "pipe_result e 1 = Inl err"
  shows "execCommand cfg e inputPayload =
           failed (PipeCreationError err) (bufs0 cfg)
             (world0\<lparr>open_res := [PipeRead 0, PipeWrite 0], n_pipes := 1\<rparr>)"
  using assms
  by (cases p0)
     (simp add: execCommand_def setInputPipe_def setOutputPipe_def os_Pipe_def world0_def bufs0_def)

lemma execCommand_pipe2_fails:
  assumes "pipe_result e 0 = Inr p0" "pipe_result e 1 = Inr p1" "pipe_result e 2 = Inl err"
  shows "execCommand cfg e inputPayload =
           failed (PipeCreationError err) (bufs0 cfg)
             (world0\<lparr>open_res := [PipeRead 0, PipeWrite 0, PipeRead 1, PipeWrite 1], n_pipes := 2\<rparr>)"
  using assms
  by (cases p0; cases p1)
     (simp add: execCommand_def setInputPipe_def setOutputPipe_def os_Pipe_def world0_def bufs0_def
        numeral_2_eq_2)

lemma dup_loop_open:
  "dup_loop e files i fds w d = (r, w', d') \<Longrightarrow>
     \<exists>ds. w' = w\<lparr>open_res := open_res w @ ds\<rparr> \<and> set d' = set ds \<union> set d"
proof (induction files arbitrary: i fds w d)
  case Nil
  then show ?case by (auto intro: exI [of _ "[]"])
next
  case (Cons f files)
  show ?case
  proof (cases "0 < f")
    case False
    with Cons.prems have "dup_loop e files (i + 1) (fds @ [0]) w d = (r, w', d')" by simp
    from Cons.IH [OF this] show ?thesis .
  next
    case pos: True
    show ?thesis
    proof (cases "dup_result e i")
      case (Inl err)
      with pos Cons.prems show ?thesis by (auto intro: exI [of _ "[]"])
    next
      case (Inr h)
      with pos Cons.prems have
        "dup_loop e files (i + 1) (fds @ [h]) (w\<lparr>open_res := open_res w @ [Duplicate i]\<rparr>)
           (Duplicate i # d) = (r, w', d')" by simp
      from Cons.IH [OF this] obtain ds where
        "w' = w\<lparr>open_res := open_res w @ [Duplicate i]\<rparr>
                \<lparr>open_res := open_res (w\<lparr>open_res := open_res w @ [Duplicate i]\<rparr>) @ ds\<rparr>"
        "set d' = set ds \<union> set (Duplicate i # d)" by blast
      then have "w' = w\<lparr>open_res := open_res w @ (Duplicate i # ds)\<rparr> \<and>
                 set d' = set (Duplicate i # ds) \<union> set d" by auto
      then show ?thesis by blast
    qed
  qed
qed

lemma run_deferred_eq:
  "run_deferred d w = w\<lparr>open_res := filter (\<lambda>r. r \<notin> set d) (open_res w)\<rparr>"
  unfolding run_deferred_def
proof (induction d arbitrary: w)
  case Nil
  then show ?case by simp
next
  case (Cons x d)
  show ?case
    by (simp add: Cons, simp add: removeAll_filter_not_eq eq_commute [of x])
qed

lemma startProcess_body_world:
  assumes "startProcess_body argv0 argv files e w = (r, w1, d)"
  shows "\<exists>ds. open_res w1 = open_res w @ ds \<and> set d = set ds"
    and "n_pipes w1 = n_pipes w" and "process_killed w1 = process_killed w"
    and "spawn_request w1 = spawn_request w \<or>
         (\<exists>pw fds. getPasswordFromRegistry e = Inr pw \<and>
            spawn_request w1 = Some (argv0, makeCmdLine argv0 argv, pw, fds))"
    and "process_created w1 = process_created w \<or>
         (process_created w1 \<and> isOK (getPasswordFromRegistry e) \<and> isOK (create_process e))"
    and "isOK r \<Longrightarrow> process_created w1"
    and "isOK (getPasswordFromRegistry e) \<or>
         (\<not> isOK r \<and> spawn_request w1 = spawn_request w \<and> process_created w1 = process_created w)"
proof -
  obtain r0 w0 d0 where dl: "dup_loop e files 0 [] w [] = (r0, w0, d0)"
    by (cases "dup_loop e files 0 [] w []") auto
  from dup_loop_open [OF dl] obtain ds where
    ds: "w0 = w\<lparr>open_res := open_res w @ ds\<rparr>" "set d0 = set ds" by auto
  from assms dl ds show "\<exists>ds. open_res w1 = open_res w @ ds \<and> set d = set ds"
    by (auto simp: startProcess_body_def Let_def intro: exI [of _ "[]"]
          split: if_splits sum.splits option.splits)
  from assms dl ds show "n_pipes w1 = n_pipes w" "process_killed w1 = process_killed w"
    by (auto simp: startProcess_body_def Let_def split: if_splits sum.splits option.splits)
  from assms dl ds show "spawn_request w1 = spawn_request w \<or>
         (\<exists>pw fds. getPasswordFromRegistry e = Inr pw \<and>
            spawn_request w1 = Some (argv0, makeCmdLine argv0 argv, pw, fds))"
    by (auto simp: startProcess_body_def Let_def split: if_splits sum.splits option.splits)
  from assms dl ds show "process_created w1 = process_created w \<or>
         (process_created w1 \<and> isOK (getPasswordFromRegistry e) \<and> isOK (create_process e))"
    by (auto simp: startProcess_body_def Let_def isOK_def split: if_splits sum.splits option.splits)
  from assms dl ds show "isOK r \<Longrightarrow> process_created w1"
    by (auto simp: startProcess_body_def Let_def isOK_def split: if_splits sum.splits option.splits)
  from assms dl ds show "isOK (getPasswordFromRegistry e) \<or>
         (\<not> isOK r \<and> spawn_request w1 = spawn_request w \<and> process_created w1 = process_created w)"
    by (auto simp: startProcess_body_def Let_def isOK_def split: if_splits sum.splits option.splits)
qed

lemma startProcess_world:
  assumes "startProcess argv0 argv files e w = (r, w')"
  shows "\<exists>ds. open_res w' = filter (\<lambda>x. x \<notin> set ds) (open_res w)"
    and "spawn_request w' = spawn_request w \<or>
         (\<exists>pw fds. getPasswordFromRegistry e = Inr pw \<and>
            spawn_request w' = Some (argv0, makeCmdLine argv0 argv, pw, fds))"
    and "process_created w' = process_created w \<or>
         (process_created w' \<and> isOK (getPasswordFromRegistry e) \<and> isOK (create_process e))"
    and "isOK r \<Longrightarrow> process_created w'"
    and "isOK (getPasswordFromRegistry e) \<or>
         (\<not> isOK r \<and> spawn_request w' = spawn_request w \<and> process_created w' = process_created w)"
proof -
  obtain w1 d where b: "startProcess_body argv0 argv files e w = (r, w1, d)"
    and w': "w' = run_deferred d w1"
    using assms by (auto simp: startProcess_def split: prod.splits)
  from startProcess_body_world(1) [OF b] obtain ds where
    "open_res w1 = open_res w @ ds" "set d = set ds" by blast
  then have "open_res w' = filter (\<lambda>x. x \<notin> set ds) (open_res w)"
    by (simp add: w' run_deferred_eq)
  then show "\<exists>ds. open_res w' = filter (\<lambda>x. x \<notin> set ds) (open_res w)" by blast
  show "spawn_request w' = spawn_request w \<or>
         (\<exists>pw fds. getPasswordFromRegistry e = Inr pw \<and>
            spawn_request w' = Some (argv0, makeCmdLine argv0 argv, pw, fds))"
    using startProcess_body_world(4) [OF b] by (simp add: w' run_deferred_eq)
  show "process_created w' = process_created w \<or>
         (process_created w' \<and> isOK (getPasswordFromRegistry e) \<and> isOK (create_process e))"
    using startProcess_body_world(5) [OF b] by (simp add: w' run_deferred_eq)
  show "isOK r \<Longrightarrow> process_created w'"
    using startProcess_body_world(6) [OF b] by (simp add: w' run_deferred_eq)
  show "isOK (getPasswordFromRegistry e) \<or>
         (\<not> isOK r \<and> spawn_request w' = spawn_request w \<and> process_created w' = process_created w)"
    using startProcess_body_world(7) [OF b] by (simp add: w' run_deferred_eq)
qed

lemma run_started_final:
  "final (run_started cfg e (plumbing3 r p0 p1 p2) bs w) =
     w\<lparr>open_res := filter (\<lambda>x. x \<notin> {PipeRead 0, PipeWrite 0, PipeRead 1, PipeWrite 1, PipeRead 2, PipeWrite 2})
                     (open_res w),
       process_killed := watcher_kills e\<rparr>"
  by (simp add: run_started_def plumbing3_def run_relays_three closeFileList_eq Close_def Let_def
        removeAll_filter_not_eq conj_ac eq_commute [of "PipeRead _"] eq_commute [of "PipeWrite _"]
        del: run_relays.simps run_relay.simps split: prod.splits cong: filter_cong)

lemma pipes_cases:
  obtains (first) err where "pipe_result e 0 = Inl err"
  | (second) p0 err where "pipe_result e 0 = Inr p0" "pipe_result e 1 = Inl err"
  | (third) p0 p1 err where "pipe_result e 0 = Inr p0" "pipe_result e 1 = Inr p1"
      "pipe_result e 2 = Inl err"
  | (created) p0 p1 p2 where "pipe_result e 0 = Inr p0" "pipe_result e 1 = Inr p1"
      "pipe_result e 2 = Inr p2"
  by (cases "pipe_result e 0"; cases "pipe_result e 1"; cases "pipe_result e 2") auto

lemma closeFileList_plumbing3:
  "closeFileList (closeAfterWait (plumbing3 r p0 p1 p2))
     (closeFileList (closeAfterStart (plumbing3 r p0 p1 p2)) w) =
   w\<lparr>open_res := filter (\<lambda>x. x \<notin> {PipeRead 0, PipeWrite 0, PipeRead 1, PipeWrite 1, PipeRead 2, PipeWrite 2})
                   (open_res w)\<rparr>"
  by (simp add: plumbing3_def closeFileList_eq conj_ac cong: filter_cong)

lemma execCommand_after_pipes:
  assumes "pipe_result e 0 = Inr p0" "pipe_result e 1 = Inr p1" "pipe_result e 2 = Inr p2"
  obtains (not_started) err w4 where
      "startProcess (secretBackendCommand cfg) (secretBackendArguments cfg)
         [fst p0, snd p1, snd p2] e world3 = (Inl err, w4)"
      "execCommand cfg e inputPayload =
         failed err (bufs0 cfg)
           (w4\<lparr>open_res := filter (\<lambda>x. x \<notin> {PipeRead 0, PipeWrite 0, PipeRead 1, PipeWrite 1, PipeRead 2, PipeWrite 2})
                   (open_res w4)\<rparr>)"
  | (started) pid w4 where
      "startProcess (secretBackendCommand cfg) (secretBackendArguments cfg)
         [fst p0, snd p1, snd p2] e world3 = (Inr pid, w4)"
      "execCommand cfg e inputPayload =
         run_started cfg e (plumbing3 inputPayload p0 p1 p2) (bufs0 cfg) w4"
proof -
  obtain r w4 where sp: "startProcess (secretBackendCommand cfg) (secretBackendArguments cfg)
         [fst p0, snd p1, snd p2] e world3 = (r, w4)"
    by (cases "startProcess (secretBackendCommand cfg) (secretBackendArguments cfg)
         [fst p0, snd p1, snd p2] e world3") auto
  show thesis
  proof (cases r)
    case (Inl err)
    with sp show thesis
      using not_started [of err w4] execCommand_pipes_ok [OF assms, of cfg inputPayload]
      by (simp add: closeFileList_plumbing3)
  next
    case (Inr pid)
    with sp show thesis
      using started [of pid w4] execCommand_pipes_ok [OF assms, of cfg inputPayload]
      by simp
  qed
qed

lemma filter_pipes_world3:
  "open_res w = filter (\<lambda>x. x \<notin> set ds) (open_res world3) \<Longrightarrow>
   filter (\<lambda>x. x \<notin> {PipeRead 0, PipeWrite 0, PipeRead 1, PipeWrite 1, PipeRead 2, PipeWrite 2})
     (open_res w) = []"
  by (auto simp: world3_def filter_empty_conv)

text \<open>When the three pipes have been created, every handle is closed when the call returns.\<close>

lemma no_leak_after_three_pipes:
  assumes "isOK (pipe_result e 0)" "isOK (pipe_result e 1)" "isOK (pipe_result e 2)"
  shows "open_res (final (execCommand cfg e inputPayload)) = []"
proof -
  from assms obtain p0 p1 p2 where
    p: "pipe_result e 0 = Inr p0" "pipe_result e 1 = Inr p1" "pipe_result e 2 = Inr p2"
    by (metis isOK_E)
  from p show ?thesis
  proof (cases rule: execCommand_after_pipes [where cfg = cfg and inputPayload = inputPayload])
    case (not_started err w4)
    from startProcess_world(1) [OF not_started(1)] obtain ds where
      "open_res w4 = filter (\<lambda>x. x \<notin> set ds) (open_res world3)" by blast
    from filter_pipes_world3 [OF this] show ?thesis
      by (simp add: not_started(2) failed_def)
  next
    case (started pid w4)
    from startProcess_world(1) [OF started(1)] obtain ds where
      "open_res w4 = filter (\<lambda>x. x \<notin> set ds) (open_res world3)" by blast
    from filter_pipes_world3 [OF this] show ?thesis
      by (simp add: started(2) run_started_final)
  qed
qed

text \<open>
  When the second or the third pipe cannot be created, the ends of the pipes created before
  stay open.
\<close>

lemma later_pipe_failure_leaks:
  "pipe_result e 0 = Inr p0 \<Longrightarrow> pipe_result e 1 = Inl err \<Longrightarrow>
     open_res (final (execCommand cfg e inputPayload)) = [PipeRead 0, PipeWrite 0]"
  "pipe_result e 0 = Inr p0 \<Longrightarrow> pipe_result e 1 = Inr p1 \<Longrightarrow> pipe_result e 2 = Inl err \<Longrightarrow>
     open_res (final (execCommand cfg e inputPayload)) =
       [PipeRead 0, PipeWrite 0, PipeRead 1, PipeWrite 1]"
  by (simp_all add: execCommand_pipe1_fails execCommand_pipe2_fails failed_def)

text \<open>No process is created, and none is requested, unless the password has been read.\<close>

lemma no_process_without_password:
  assumes "\<not> isOK (getPasswordFromRegistry e)"
  shows "\<not> process_created (final (execCommand cfg e inputPayload))"
    and "spawn_request (final (execCommand cfg e inputPayload)) = None"
    and "ret_bytes (execCommand cfg e inputPayload) = None"
    and "ret_err (execCommand cfg e inputPayload) \<noteq> None"
proof -
  have "\<not> process_created (final (execCommand cfg e inputPayload)) \<and>
        spawn_request (final (execCommand cfg e inputPayload)) = None \<and>
        ret_bytes (execCommand cfg e inputPayload) = None \<and>
        ret_err (execCommand cfg e inputPayload) \<noteq> None"
  proof (cases e rule: pipes_cases)
    case (first err)
    then show ?thesis by (simp add: execCommand_pipe0_fails failed_def world0_def)
  next
    case (second p0 err)
    then show ?thesis by (simp add: execCommand_pipe1_fails failed_def world0_def)
  next
    case (third p0 p1 err)
    then show ?thesis by (simp add: execCommand_pipe2_fails failed_def world0_def)
  next
    case (created p0 p1 p2)
    then show ?thesis
    proof (cases rule: execCommand_after_pipes [where cfg = cfg and inputPayload = inputPayload])
      case (not_started err w4)
      from startProcess_world(5) [OF not_started(1)] assms show ?thesis
        by (simp add: not_started(2) failed_def world3_def)
    next
      case (started pid w4)
      from startProcess_world(5) [OF started(1)] assms show ?thesis
        by (simp add: isOK_def)
    qed
  qed
  then show "\<not> process_created (final (execCommand cfg e inputPayload))"
    and "spawn_request (final (execCommand cfg e inputPayload)) = None"
    and "ret_bytes (execCommand cfg e inputPayload) = None"
    and "ret_err (execCommand cfg e inputPayload) \<noteq> None"
    by simp_all
qed

text \<open>The request handed to the process-creation primitive, when there is one.\<close>

lemma spawn_request_shape:
  "spawn_request (final (execCommand cfg e inputPayload)) = None \<or>
   (\<exists>pw fds. spawn_request (final (execCommand cfg e inputPayload)) =
      Some (secretBackendCommand cfg,
            makeCmdLine (secretBackendCommand cfg) (secretBackendArguments cfg), pw, fds))"
proof (cases e rule: pipes_cases)
  case (first err)
  then show ?thesis by (simp add: execCommand_pipe0_fails failed_def world0_def)
next
  case (second p0 err)
  then show ?thesis by (simp add: execCommand_pipe1_fails failed_def world0_def)
next
  case (third p0 p1 err)
  then show ?thesis by (simp add: execCommand_pipe2_fails failed_def world0_def)
next
  case (created p0 p1 p2)
  then show ?thesis
  proof (cases rule: execCommand_after_pipes [where cfg = cfg and inputPayload = inputPayload])
    case (not_started err w4)
    from startProcess_world(2) [OF not_started(1)] show ?thesis
      by (auto simp: not_started(2) failed_def world3_def)
  next
    case (started pid w4)
    from startProcess_world(2) [OF started(1)] show ?thesis
      by (auto simp: started(2) run_started_final world3_def)
  qed
qed

lemma startProcess_credential_fails:
  assumes "utf16_ok argv0" "utf16_ok (makeCmdLine argv0 argv)"
    and "dup_result e 0 = Inr d0" "dup_result e 1 = Inr d1" "dup_result e 2 = Inr d2"
    and "getPasswordFromRegistry e = Inl err"
  shows "\<exists>w'. startProcess argv0 argv [h0, h1, h2] e w = (Inl err, w')"
proof -
  from dup_loop_three [OF assms(3-5), of h0 h1 h2 w]
  obtain fds w' deferred where "dup_loop e [h0, h1, h2] 0 [] w [] = (Inr fds, w', deferred)"
    by blast
  then show ?thesis
    using assms by (simp add: startProcess_def startProcess_body_def Let_def)
qed

lemma credential_failure_is_returned:
  assumes "reaches_credential_fetch cfg e" and "getPasswordFromRegistry e = Inl err"
  shows "ret_err (execCommand cfg e inputPayload) = Some err"
proof -
  from assms(1) obtain p0 p1 p2 d0 d1 d2 where
    p: "pipe_result e 0 = Inr p0" "pipe_result e 1 = Inr p1" "pipe_result e 2 = Inr p2"
    and d: "dup_result e 0 = Inr d0" "dup_result e 1 = Inr d1" "dup_result e 2 = Inr d2"
    unfolding reaches_credential_fetch_def by (metis isOK_E)
  from assms(1) have u: "utf16_ok (secretBackendCommand cfg)"
    "utf16_ok (makeCmdLine (secretBackendCommand cfg) (secretBackendArguments cfg))"
    by (simp_all add: reaches_credential_fetch_def)
  obtain w' where "startProcess (secretBackendCommand cfg) (secretBackendArguments cfg)
      [fst p0, snd p1, snd p2] e world3 = (Inl err, w')"
    using startProcess_credential_fails [OF u d assms(2)] by blast
  then show ?thesis
    by (simp add: execCommand_pipes_ok [OF p] failed_def)
qed

lemma credential_absent_not_OK: "credential_absent e \<Longrightarrow> \<not> isOK (getPasswordFromRegistry e)"
  by (auto simp: credential_absent_def getPasswordFromRegistry_def isOK_def)

lemma limitBuffer_Write_bounded:
  "int (length (buf b)) \<le> max_bytes b \<Longrightarrow>
   int (length (buf (snd (limitBuffer_Write b p)))) \<le> max_bytes b \<and>
   max_bytes (snd (limitBuffer_Write b p)) = max_bytes b"
  by (auto simp: limitBuffer_Write_def)

lemma io_Copy_fresh:
  "buf (snd (io_Copy \<lparr>buf = [], max_bytes = m\<rparr> chunks er)) = take (nat m) (concat chunks)"
  by (simp add: limitBuffer_io_Copy)

lemma execCommand_bufs:
  "bufs (execCommand cfg e inputPayload) = bufs0 cfg \<or>
   (buf (stdout (bufs (execCommand cfg e inputPayload))) =
      take (nat (secretBackendOutputMaxSize cfg)) (concat (received e Stdout)) \<and>
    buf (stderr (bufs (execCommand cfg e inputPayload))) =
      take (nat (secretBackendOutputMaxSize cfg)) (concat (received e Stderr)))"
proof (cases e rule: pipes_cases)
  case (first err)
  then show ?thesis by (simp add: execCommand_pipe0_fails failed_def)
next
  case (second p0 err)
  then show ?thesis by (simp add: execCommand_pipe1_fails failed_def)
next
  case (third p0 p1 err)
  then show ?thesis by (simp add: execCommand_pipe2_fails failed_def)
next
  case (created p0 p1 p2)
  then show ?thesis
  proof (cases rule: execCommand_after_pipes [where cfg = cfg and inputPayload = inputPayload])
    case (not_started err w4)
    then show ?thesis by (simp add: failed_def)
  next
    case (started pid w4)
    have "goroutine (plumbing3 inputPayload p0 p1 p2) =
        [CopyIn inputPayload \<lparr>res = PipeWrite 0, fd = snd p0\<rparr>,
         CopyOut Stdout \<lparr>res = PipeRead 1, fd = fst p1\<rparr>,
         CopyOut Stderr \<lparr>res = PipeRead 2, fd = fst p2\<rparr>]"
      by (simp add: plumbing3_def)
    from run_started_three(3) [OF this] show ?thesis
      by (simp add: started(2) limitBuffer_io_Copy bufs0_def)
  qed
qed

section \<open>Claims\<close>

lemmas exec_defs = execCommand_def setInputPipe_def setOutputPipe_def os_Pipe_def world0_def
  startProcess_def startProcess_body_def utf16_ok_def makeCmdLine_def EscapeArg_def
  getPasswordFromRegistry_def run_deferred_def closeFileList_def Close_def run_started_def
  limitBuffer_Write_def received_def read_err_def skipStdinCopyError_def arrivals_def collect_def
  classify_def failed_def deadline_exceeded_def

text \<open>
  Claim C1, at the input where it fails: the deadline passes while the command runs, the
  watcher kills the process, and \<open>process.Wait()\<close> returns no error and a state that is
  not a success, as it does for a process that has been terminated. The timeout is
  looked for only under a wait error, so the call returns "exited with failure status"
  and not "command timeout".
\<close>

theorem timeout_kill_reported_as_failure_status:
  "startup_succeeds example_config (example_env\<lparr>watcher_kills := True, exit_success := False\<rparr>) \<and>
   watcher_kills (example_env\<lparr>watcher_kills := True, exit_success := False\<rparr>) \<and>
   process_killed (final (execCommand example_config
     (example_env\<lparr>watcher_kills := True, exit_success := False\<rparr>) ''{}'')) \<and>
   ret_err (execCommand example_config
     (example_env\<lparr>watcher_kills := True, exit_success := False\<rparr>) ''{}'') =
     Some (NonZeroExitError ''secret.exe'') \<and>
   ret_err (execCommand example_config
     (example_env\<lparr>watcher_kills := True, exit_success := False\<rparr>) ''{}'') \<noteq>
     Some (TimeoutError ''secret.exe'')"
proof -
  have s: "startup_succeeds example_config (example_env\<lparr>watcher_kills := True, exit_success := False\<rparr>)"
    by (simp add: example_defs)
  show ?thesis
    using s by (simp add: execCommand_started_outcome [OF s] classify_def) (simp add: example_defs)
qed



text \<open>
  Claim C3, at the input where it fails: the first pipe is created and the creation of
  the second fails. \<open>execCommand\<close> returns the error and leaves both ends of the first
  pipe open.
\<close>

theorem second_pipe_failure_leaks_first_pipe:
  "ret_err (execCommand example_config
     (example_env\<lparr>pipe_result := (\<lambda>i. if i = 1 then Inl ''too many open files''
                                      else Inr (10 + 2 * i, 11 + 2 * i))\<rparr>) ''{}'') =
     Some (PipeCreationError ''too many open files'') \<and>
   open_res (final (execCommand example_config
     (example_env\<lparr>pipe_result := (\<lambda>i. if i = 1 then Inl ''too many open files''
                                      else Inr (10 + 2 * i, 11 + 2 * i))\<rparr>) ''{}'')) =
     [PipeRead 0, PipeWrite 0] \<and>
   \<not> process_created (final (execCommand example_config
     (example_env\<lparr>pipe_result := (\<lambda>i. if i = 1 then Inl ''too many open files''
                                      else Inr (10 + 2 * i, 11 + 2 * i))\<rparr>) ''{}''))"
  by (simp add: execCommand_def setInputPipe_def setOutputPipe_def os_Pipe_def world0_def failed_def
        example_env_def)

text \<open>
  Claim C4: with a limit that is not negative, the stdout and stderr buffers of a call
  never hold more than \<open>secretBackendOutputMaxSize\<close> bytes, after any number of chunks
  copied; when the chunks hold at least that many bytes the buffer holds exactly the first
  \<open>secretBackendOutputMaxSize\<close> bytes written. In a call whose process is started, each
  of the two buffers holds the bytes received on its stream cut to the first
  \<open>secretBackendOutputMaxSize\<close> bytes: exactly that many when the command wrote at least
  as many on the stream.
\<close>

theorem limitBuffer_holds_first_max_bytes:
  assumes "0 \<le> secretBackendOutputMaxSize cfg"
  shows "int (length (buf (stdout (bufs (execCommand cfg e inputPayload))))) \<le> secretBackendOutputMaxSize cfg \<and>
         int (length (buf (stderr (bufs (execCommand cfg e inputPayload))))) \<le> secretBackendOutputMaxSize cfg \<and>
         int (length (buf (snd (io_Copy (stdout (bufs0 cfg)) (take n chunks) er)))) \<le> secretBackendOutputMaxSize cfg \<and>
         int (length (buf (snd (io_Copy (stderr (bufs0 cfg)) (take n chunks) er)))) \<le> secretBackendOutputMaxSize cfg \<and>
         (secretBackendOutputMaxSize cfg \<le> int (length (concat chunks)) \<longrightarrow>
            buf (snd (io_Copy (stdout (bufs0 cfg)) chunks er)) =
              take (nat (secretBackendOutputMaxSize cfg)) (concat chunks) \<and>
            int (length (buf (snd (io_Copy (stdout (bufs0 cfg)) chunks er)))) = secretBackendOutputMaxSize cfg \<and>
            buf (snd (io_Copy (stderr (bufs0 cfg)) chunks er)) =
              take (nat (secretBackendOutputMaxSize cfg)) (concat chunks) \<and>
            int (length (buf (snd (io_Copy (stderr (bufs0 cfg)) chunks er)))) = secretBackendOutputMaxSize cfg) \<and>
         (startup_succeeds cfg e \<longrightarrow>
            buf (stdout (bufs (execCommand cfg e inputPayload))) =
              take (nat (secretBackendOutputMaxSize cfg)) (concat (received e Stdout)) \<and>
            buf (stderr (bufs (execCommand cfg e inputPayload))) =
              take (nat (secretBackendOutputMaxSize cfg)) (concat (received e Stderr))) \<and>
         (startup_succeeds cfg e \<and>
          secretBackendOutputMaxSize cfg \<le> int (length (concat (received e Stdout))) \<longrightarrow>
            buf (stdout (bufs (execCommand cfg e inputPayload))) =
              take (nat (secretBackendOutputMaxSize cfg)) (concat (received e Stdout)) \<and>
            int (length (buf (stdout (bufs (execCommand cfg e inputPayload))))) =
              secretBackendOutputMaxSize cfg) \<and>
         (startup_succeeds cfg e \<and>
          secretBackendOutputMaxSize cfg \<le> int (length (concat (received e Stderr))) \<longrightarrow>
            buf (stderr (bufs (execCommand cfg e inputPayload))) =
              take (nat (secretBackendOutputMaxSize cfg)) (concat (received e Stderr)) \<and>
            int (length (buf (stderr (bufs (execCommand cfg e inputPayload))))) =
              secretBackendOutputMaxSize cfg)"
proof -
  have a: "int (length (take (nat (secretBackendOutputMaxSize cfg)) xs)) \<le> secretBackendOutputMaxSize cfg"
    for xs :: "byte list"
    using assms by simp
  have bound: "int (length (buf (stdout (bufs (execCommand cfg e inputPayload))))) \<le> secretBackendOutputMaxSize cfg \<and>
        int (length (buf (stderr (bufs (execCommand cfg e inputPayload))))) \<le> secretBackendOutputMaxSize cfg"
    using execCommand_bufs [of cfg e inputPayload] assms a
    by (auto simp: bufs0_def)
  have copy: "buf (snd (io_Copy (stdout (bufs0 cfg)) cs er)) =
        take (nat (secretBackendOutputMaxSize cfg)) (concat cs)"
      "buf (snd (io_Copy (stderr (bufs0 cfg)) cs er)) =
        take (nat (secretBackendOutputMaxSize cfg)) (concat cs)" for cs
    by (simp_all add: bufs0_def io_Copy_fresh)
  have started: "buf (stdout (bufs (execCommand cfg e inputPayload))) =
        take (nat (secretBackendOutputMaxSize cfg)) (concat (received e Stdout))"
      "buf (stderr (bufs (execCommand cfg e inputPayload))) =
        take (nat (secretBackendOutputMaxSize cfg)) (concat (received e Stderr))"
    if "startup_succeeds cfg e"
    using that by (simp_all add: execCommand_started_outcome)
  show ?thesis
    using bound assms by (auto simp: copy started min_def)
qed

theorem limitBuffer_holds_first_max_bytes_witness:
  "0 \<le> secretBackendOutputMaxSize example_config \<and>
   startup_succeeds example_config noisy_env \<and>
   secretBackendOutputMaxSize example_config \<le> int (length (concat (received noisy_env Stdout))) \<and>
   secretBackendOutputMaxSize example_config \<le> int (length (concat (received noisy_env Stderr))) \<and>
   secretBackendOutputMaxSize example_config \<le> int (length (concat [[1, 2, 3], [4, 5 :: byte]])) \<and>
   buf (snd (io_Copy (stdout (bufs0 example_config)) [[1, 2, 3], [4, 5]] None)) = [1, 2, 3, 4] \<and>
   buf (snd (io_Copy (stderr (bufs0 example_config)) [[1, 2, 3], [4, 5]] None)) = [1, 2, 3, 4] \<and>
   buf (snd (io_Copy (stdout (bufs0 example_config)) (take 1 [[1, 2, 3], [4, 5]]) None)) = [1, 2, 3] \<and>
   buf (stdout (bufs (execCommand example_config noisy_env ''{}''))) = [1, 2, 3, 4] \<and>
   buf (stderr (bufs (execCommand example_config noisy_env ''{}''))) = [6, 7, 8, 9]"
  using limitBuffer_holds_first_max_bytes [of example_config noisy_env "''{}''" 1 "[[1, 2, 3], [4, 5]]" None]
  by (simp add: noisy_env_def example_defs received_def bufs0_def limitBuffer_Write_def)

text \<open>
  Claim C5, as amended: for every argument list, the escaped arguments that
  \<open>makeCmdLine\<close> appends to the command path are read back by the command-line
  convention as exactly the original arguments, in order; the whole command line is read
  back as the command path followed by the arguments when the command path is one plain
  token (not empty, without space, tab or double quote).
\<close>

theorem makeCmdLine_roundtrip:
  "commandLineToArgv (drop (length cmd) (makeCmdLine cmd args)) = args \<and>
   (plain_token cmd \<longrightarrow> commandLineToArgv (makeCmdLine cmd args) = cmd # args)"
  by (simp add: makeCmdLine_arguments_roundtrip makeCmdLine_joinArgs commandLineToArgv_joinArgs)

theorem makeCmdLine_roundtrip_witness:
  "plain_token (''C:'' @ [BSLASH] @ ''bin'' @ [BSLASH] @ ''secret.exe'') \<and>
   makeCmdLine (''C:'' @ [BSLASH] @ ''bin'' @ [BSLASH] @ ''secret.exe'')
       [''a b'', [], [BSLASH, DQUOTE, SPACE, BSLASH], ''x'' @ [BSLASH]] =
     ''C:'' @ [BSLASH] @ ''bin'' @ [BSLASH] @ ''secret.exe'' @ [SPACE] @
     [DQUOTE] @ ''a b'' @ [DQUOTE] @ [SPACE] @
     [DQUOTE, DQUOTE] @ [SPACE] @
     [DQUOTE, BSLASH, BSLASH, BSLASH, DQUOTE, SPACE, BSLASH, BSLASH, DQUOTE] @ [SPACE] @
     ''x'' @ [BSLASH] \<and>
   commandLineToArgv (makeCmdLine (''C:'' @ [BSLASH] @ ''bin'' @ [BSLASH] @ ''secret.exe'')
       [''a b'', [], [BSLASH, DQUOTE, SPACE, BSLASH], ''x'' @ [BSLASH]]) =
     [''C:'' @ [BSLASH] @ ''bin'' @ [BSLASH] @ ''secret.exe'',
      ''a b'', [], [BSLASH, DQUOTE, SPACE, BSLASH], ''x'' @ [BSLASH]]"
  using makeCmdLine_roundtrip [of "''C:'' @ [BSLASH] @ ''bin'' @ [BSLASH] @ ''secret.exe''"
      "[''a b'', [], [BSLASH, DQUOTE, SPACE, BSLASH], ''x'' @ [BSLASH]]"]
  by (simp add: plain_token_def makeCmdLine_def EscapeArg_def)

text \<open>
  The claim as stated fails for a command path with a space: the path is split, and the
  argument arrives in third place.
\<close>

theorem command_path_with_space_is_split:
  "makeCmdLine ''my backend.exe'' [''--payload''] = ''my backend.exe --payload'' \<and>
   commandLineToArgv (makeCmdLine ''my backend.exe'' [''--payload'']) =
     [''my'', ''backend.exe'', ''--payload''] \<and>
   commandLineToArgv (makeCmdLine ''my backend.exe'' [''--payload'']) \<noteq>
     [''my backend.exe'', ''--payload''] \<and>
   tl (commandLineToArgv (makeCmdLine ''my backend.exe'' [''--payload''])) \<noteq> [''--payload'']"
  by (simp add: makeCmdLine_def EscapeArg_def commandLineToArgv.simps readNextArg_def
        readNextArg_loop.simps(2))

text \<open>
  Claim C6, as amended: when the credential entry is absent from the registry (the key
  does not exist, or it exists without a value named after the user), no child process is
  created or requested and the call returns an error and no bytes. When every step before
  the credential is fetched succeeds: a key that does not exist gives
  \<open>CredentialNotFound\<close>; any other failure to open the key, and any failure to read the
  value (a missing value included), gives an error of the read-failure class, which is not
  \<open>CredentialNotFound\<close>, and no child process is created or requested.
\<close>

theorem absent_credential_creates_no_process:
  "(credential_absent e \<longrightarrow>
      \<not> process_created (final (execCommand cfg e inputPayload)) \<and>
      spawn_request (final (execCommand cfg e inputPayload)) = None \<and>
      ret_bytes (execCommand cfg e inputPayload) = None \<and>
      ret_err (execCommand cfg e inputPayload) \<noteq> None) \<and>
   (reaches_credential_fetch cfg e \<and> open_key e = Some ErrNotExist \<longrightarrow>
      ret_err (execCommand cfg e inputPayload) = Some CredentialNotFound) \<and>
   (reaches_credential_fetch cfg e \<and> open_key e = Some err \<and> err \<noteq> ErrNotExist \<longrightarrow>
      ret_err (execCommand cfg e inputPayload) = Some (CredentialOpenError (reg_error_text err)) \<and>
      (\<exists>x. ret_err (execCommand cfg e inputPayload) = Some x \<and>
           is_CredentialReadError x \<and> x \<noteq> CredentialNotFound) \<and>
      \<not> process_created (final (execCommand cfg e inputPayload)) \<and>
      spawn_request (final (execCommand cfg e inputPayload)) = None) \<and>
   (reaches_credential_fetch cfg e \<and> open_key e = None \<and> get_string_value e = Inl verr \<longrightarrow>
      ret_err (execCommand cfg e inputPayload) = Some (CredentialValueError (reg_error_text verr)) \<and>
      (\<exists>x. ret_err (execCommand cfg e inputPayload) = Some x \<and>
           is_CredentialReadError x \<and> x \<noteq> CredentialNotFound) \<and>
      \<not> process_created (final (execCommand cfg e inputPayload)) \<and>
      spawn_request (final (execCommand cfg e inputPayload)) = None)"
proof -
  have absent: "\<not> process_created (final (execCommand cfg e inputPayload)) \<and>
      spawn_request (final (execCommand cfg e inputPayload)) = None \<and>
      ret_bytes (execCommand cfg e inputPayload) = None \<and>
      ret_err (execCommand cfg e inputPayload) \<noteq> None"
    if "\<not> isOK (getPasswordFromRegistry e)"
    using no_process_without_password [OF that, of cfg inputPayload] by simp
  have key: "ret_err (execCommand cfg e inputPayload) = Some CredentialNotFound"
    if "reaches_credential_fetch cfg e" "open_key e = Some ErrNotExist"
    using that by (intro credential_failure_is_returned) (simp_all add: getPasswordFromRegistry_def)
  have other: "ret_err (execCommand cfg e inputPayload) = Some (CredentialOpenError (reg_error_text err)) \<and>
      \<not> process_created (final (execCommand cfg e inputPayload)) \<and>
      spawn_request (final (execCommand cfg e inputPayload)) = None"
    if "reaches_credential_fetch cfg e" "open_key e = Some err" "err \<noteq> ErrNotExist"
  proof -
    from that have g: "getPasswordFromRegistry e = Inl (CredentialOpenError (reg_error_text err))"
      by (simp add: getPasswordFromRegistry_def)
    then have "\<not> isOK (getPasswordFromRegistry e)" by (simp add: isOK_def)
    from absent [OF this] credential_failure_is_returned [OF that(1) g, of inputPayload]
    show ?thesis by simp
  qed
  have val: "ret_err (execCommand cfg e inputPayload) = Some (CredentialValueError (reg_error_text verr)) \<and>
      \<not> process_created (final (execCommand cfg e inputPayload)) \<and>
      spawn_request (final (execCommand cfg e inputPayload)) = None"
    if "reaches_credential_fetch cfg e" "open_key e = None" "get_string_value e = Inl verr"
  proof -
    from that have g: "getPasswordFromRegistry e = Inl (CredentialValueError (reg_error_text verr))"
      by (simp add: getPasswordFromRegistry_def)
    then have "\<not> isOK (getPasswordFromRegistry e)" by (simp add: isOK_def)
    from absent [OF this] credential_failure_is_returned [OF that(1) g, of inputPayload]
    show ?thesis by simp
  qed
  show ?thesis
    using absent [OF credential_absent_not_OK] key other val by auto
qed

theorem absent_credential_creates_no_process_witness:
  "credential_absent (example_env\<lparr>open_key := Some ErrNotExist\<rparr>) \<and>
   reaches_credential_fetch example_config (example_env\<lparr>open_key := Some ErrNotExist\<rparr>) \<and>
   open_key (example_env\<lparr>open_key := Some ErrNotExist\<rparr>) = Some ErrNotExist \<and>
   \<not> process_created (final (execCommand example_config (example_env\<lparr>open_key := Some ErrNotExist\<rparr>) ''{}'')) \<and>
   spawn_request (final (execCommand example_config (example_env\<lparr>open_key := Some ErrNotExist\<rparr>) ''{}'')) = None \<and>
   ret_bytes (execCommand example_config (example_env\<lparr>open_key := Some ErrNotExist\<rparr>) ''{}'') = None \<and>
   ret_err (execCommand example_config (example_env\<lparr>open_key := Some ErrNotExist\<rparr>) ''{}'') =
     Some CredentialNotFound \<and>
   reaches_credential_fetch example_config (example_env\<lparr>open_key := Some (RegError ''Access is denied.'')\<rparr>) \<and>
   open_key (example_env\<lparr>open_key := Some (RegError ''Access is denied.'')\<rparr>) =
     Some (RegError ''Access is denied.'') \<and>
   RegError ''Access is denied.'' \<noteq> ErrNotExist \<and>
   ret_err (execCommand example_config
       (example_env\<lparr>open_key := Some (RegError ''Access is denied.'')\<rparr>) ''{}'') =
     Some (CredentialOpenError ''Access is denied.'') \<and>
   \<not> process_created (final (execCommand example_config
       (example_env\<lparr>open_key := Some (RegError ''Access is denied.'')\<rparr>) ''{}'')) \<and>
   credential_absent (example_env\<lparr>get_string_value := Inl ErrNotExist\<rparr>) \<and>
   reaches_credential_fetch example_config (example_env\<lparr>get_string_value := Inl ErrNotExist\<rparr>) \<and>
   open_key (example_env\<lparr>get_string_value := Inl ErrNotExist\<rparr>) = None \<and>
   get_string_value (example_env\<lparr>get_string_value := Inl ErrNotExist\<rparr>) = Inl ErrNotExist \<and>
   ret_err (execCommand example_config (example_env\<lparr>get_string_value := Inl ErrNotExist\<rparr>) ''{}'') =
     Some (CredentialValueError ''The system cannot find the file specified.'') \<and>
   \<not> process_created (final (execCommand example_config
       (example_env\<lparr>get_string_value := Inl ErrNotExist\<rparr>) ''{}''))"
  using absent_credential_creates_no_process
      [where e = "example_env\<lparr>open_key := Some ErrNotExist\<rparr>" and cfg = example_config
         and inputPayload = "''{}''"]
    absent_credential_creates_no_process
      [where e = "example_env\<lparr>open_key := Some (RegError ''Access is denied.'')\<rparr>"
         and cfg = example_config and inputPayload = "''{}''" and err = "RegError ''Access is denied.''"]
    absent_credential_creates_no_process
      [where e = "example_env\<lparr>get_string_value := Inl ErrNotExist\<rparr>" and cfg = example_config
         and inputPayload = "''{}''" and verr = ErrNotExist]
  by (simp add: example_defs credential_absent_def)

text \<open>
  The claim as stated fails when the key exists and the value is missing: the error is the
  one for a failed read of the value, not \<open>CredentialNotFound\<close>.
\<close>

theorem missing_value_is_read_error:
  "credential_absent (example_env\<lparr>get_string_value := Inl ErrNotExist\<rparr>) \<and>
   ret_err (execCommand example_config (example_env\<lparr>get_string_value := Inl ErrNotExist\<rparr>) ''{}'') =
     Some (CredentialValueError ''The system cannot find the file specified.'') \<and>
   ret_err (execCommand example_config (example_env\<lparr>get_string_value := Inl ErrNotExist\<rparr>) ''{}'') \<noteq>
     Some CredentialNotFound \<and>
   is_CredentialReadError (CredentialValueError ''The system cannot find the file specified.'')"
proof -
  have "reaches_credential_fetch example_config (example_env\<lparr>get_string_value := Inl ErrNotExist\<rparr>)"
    by (simp add: example_defs)
  moreover have "getPasswordFromRegistry (example_env\<lparr>get_string_value := Inl ErrNotExist\<rparr>) =
      Inl (CredentialValueError ''The system cannot find the file specified.'')"
    by (simp add: getPasswordFromRegistry_def example_env_def)
  ultimately show ?thesis
    by (simp add: credential_failure_is_returned credential_absent_def example_env_def)
qed

text \<open>
  Claim C7: when the child process is started and exits with success, and the copy into
  the stdin pipe fails with a \<open>*os.PathError\<close> of a write to \<open>|1\<close> whose cause is
  \<open>ERROR_BROKEN_PIPE\<close> or \<open>ERROR_NO_DATA\<close>, the error is skipped: the input task
  reports only what closing the write end reports, the call returns the stdout buffer and
  a nil error, and \<open>copyError\<close> is collected from the close error and the two output
  tasks only.
\<close>

theorem stdin_broken_pipe_is_benign:
  assumes "startup_succeeds cfg e" and "wait_err e = None" and "exit_success e"
    and "stdin_copy_err e = Some (PathError ''write'' ''|1'' errno)"
    and "errno = ERROR_BROKEN_PIPE \<or> errno = ERROR_NO_DATA"
  shows "skipStdinCopyError (stdin_copy_err e) \<and>
         copy_in_result e = stdin_close_err e \<and>
         ret_err (execCommand cfg e inputPayload) = None \<and>
         ret_bytes (execCommand cfg e inputPayload) =
           Some (buf (stdout (bufs (execCommand cfg e inputPayload)))) \<and>
         copyError (execCommand cfg e inputPayload) =
           collect (arrivals e [stdin_close_err e, read_err e Stdout, read_err e Stderr])"
proof -
  from assms(4,5) have skip: "skipStdinCopyError (stdin_copy_err e)"
    by (auto simp: skipStdinCopyError_def)
  then have "copy_in_result e = stdin_close_err e"
    by (simp add: copy_in_result_def)
  with skip show ?thesis
    using assms(1-3) by (simp add: execCommand_started_outcome classify_def relay_results_def)
qed

theorem stdin_broken_pipe_is_benign_witness:
  "startup_succeeds example_config
     (example_env\<lparr>stdin_copy_err := Some (PathError ''write'' ''|1'' ERROR_BROKEN_PIPE)\<rparr>) \<and>
   wait_err (example_env\<lparr>stdin_copy_err := Some (PathError ''write'' ''|1'' ERROR_BROKEN_PIPE)\<rparr>) = None \<and>
   exit_success (example_env\<lparr>stdin_copy_err := Some (PathError ''write'' ''|1'' ERROR_BROKEN_PIPE)\<rparr>) \<and>
   ret_err (execCommand example_config
     (example_env\<lparr>stdin_copy_err := Some (PathError ''write'' ''|1'' ERROR_BROKEN_PIPE)\<rparr>) ''{}'') = None \<and>
   ret_bytes (execCommand example_config
     (example_env\<lparr>stdin_copy_err := Some (PathError ''write'' ''|1'' ERROR_BROKEN_PIPE)\<rparr>) ''{}'') =
     Some [1, 2, 3, 4] \<and>
   copyError (execCommand example_config
     (example_env\<lparr>stdin_copy_err := Some (PathError ''write'' ''|1'' ERROR_BROKEN_PIPE)\<rparr>) ''{}'') = None"
  using stdin_broken_pipe_is_benign [of example_config
     "example_env\<lparr>stdin_copy_err := Some (PathError ''write'' ''|1'' ERROR_BROKEN_PIPE)\<rparr>"
     ERROR_BROKEN_PIPE "''{}''"]
    execCommand_started_outcome(3) [of example_config
     "example_env\<lparr>stdin_copy_err := Some (PathError ''write'' ''|1'' ERROR_BROKEN_PIPE)\<rparr>" "''{}''"]
  by (simp add: example_defs read_err_def received_def arrivals_def collect_def numeral_3_eq_3)

text \<open>
  Claim C8: when the child process is started, \<open>process.Wait()\<close> returns no error and
  the exit status is a failure, \<open>execCommand\<close> returns the error "exited with failure
  status" (not the error that wraps a failure of the wait) and a nil byte slice.
\<close>

theorem execCommand_failure_status:
  assumes "startup_succeeds cfg e" and "wait_err e = None" and "\<not> exit_success e"
  shows "ret_err (execCommand cfg e inputPayload) = Some (NonZeroExitError (secretBackendCommand cfg)) \<and>
         ret_bytes (execCommand cfg e inputPayload) = None"
proof -
  from execCommand_started [OF assms(1), of inputPayload] obtain pl w f0 f1 f2 where
    "execCommand cfg e inputPayload = run_started cfg e pl (bufs0 cfg) w"
    "goroutine pl = [CopyIn inputPayload f0, CopyOut Stdout f1, CopyOut Stderr f2]"
    by blast
  then show ?thesis
    using assms(2,3) by (simp add: run_started_three classify_def)
qed

theorem execCommand_failure_status_witness:
  "startup_succeeds example_config (example_env\<lparr>exit_success := False\<rparr>) \<and>
   wait_err (example_env\<lparr>exit_success := False\<rparr>) = None \<and>
   \<not> exit_success (example_env\<lparr>exit_success := False\<rparr>) \<and>
   ret_err (execCommand example_config (example_env\<lparr>exit_success := False\<rparr>) ''{}'') =
     Some (NonZeroExitError ''secret.exe'') \<and>
   ret_bytes (execCommand example_config (example_env\<lparr>exit_success := False\<rparr>) ''{}'') = None"
  using execCommand_failure_status [of example_config "example_env\<lparr>exit_success := False\<rparr>" "''{}''"]
  by (simp add: example_defs)

text \<open>
  Claim C9: when the child process is started, \<open>process.Wait()\<close> returns no error and
  the exit status is success, \<open>execCommand\<close> returns the contents of the stdout buffer
  and a nil error whatever the relay tasks reported; \<open>copyError\<close> is the first error
  among their results in the order of arrival, and nothing reads it afterwards.
\<close>

theorem copy_error_never_fails_call:
  assumes "startup_succeeds cfg e" and "wait_err e = None" and "exit_success e"
  shows "ret_err (execCommand cfg e inputPayload) = None \<and>
         ret_bytes (execCommand cfg e inputPayload) =
           Some (buf (stdout (bufs (execCommand cfg e inputPayload)))) \<and>
         copyError (execCommand cfg e inputPayload) =
           (case dropWhile (\<lambda>err. err = None) (arrivals e (relay_results e)) of
              [] \<Rightarrow> None | err # _ \<Rightarrow> err)"
  using assms
  by (simp add: execCommand_started_outcome classify_def collect_first)

theorem copy_error_never_fails_call_witness:
  "startup_succeeds example_config
     (example_env\<lparr>stdin_copy_err := Some (OtherError ''access denied''),
        read_fault := (\<lambda>s. case s of Stdout \<Rightarrow> None | Stderr \<Rightarrow> Some (0, OtherError ''read failed'')),
        completion_rank := (\<lambda>i. 3 - i)\<rparr>) \<and>
   relay_results
     (example_env\<lparr>stdin_copy_err := Some (OtherError ''access denied''),
        read_fault := (\<lambda>s. case s of Stdout \<Rightarrow> None | Stderr \<Rightarrow> Some (0, OtherError ''read failed'')),
        completion_rank := (\<lambda>i. 3 - i)\<rparr>) =
     [Some (OtherError ''access denied''), None, Some (OtherError ''read failed'')] \<and>
   ret_err (execCommand example_config
     (example_env\<lparr>stdin_copy_err := Some (OtherError ''access denied''),
        read_fault := (\<lambda>s. case s of Stdout \<Rightarrow> None | Stderr \<Rightarrow> Some (0, OtherError ''read failed'')),
        completion_rank := (\<lambda>i. 3 - i)\<rparr>) ''{}'') = None \<and>
   ret_bytes (execCommand example_config
     (example_env\<lparr>stdin_copy_err := Some (OtherError ''access denied''),
        read_fault := (\<lambda>s. case s of Stdout \<Rightarrow> None | Stderr \<Rightarrow> Some (0, OtherError ''read failed'')),
        completion_rank := (\<lambda>i. 3 - i)\<rparr>) ''{}'') = Some [1, 2, 3, 4] \<and>
   copyError (execCommand example_config
     (example_env\<lparr>stdin_copy_err := Some (OtherError ''access denied''),
        read_fault := (\<lambda>s. case s of Stdout \<Rightarrow> None | Stderr \<Rightarrow> Some (0, OtherError ''read failed'')),
        completion_rank := (\<lambda>i. 3 - i)\<rparr>) ''{}'') = Some (OtherError ''read failed'')"
  using copy_error_never_fails_call [of example_config
     "example_env\<lparr>stdin_copy_err := Some (OtherError ''access denied''),
        read_fault := (\<lambda>s. case s of Stdout \<Rightarrow> None | Stderr \<Rightarrow> Some (0, OtherError ''read failed'')),
        completion_rank := (\<lambda>i. 3 - i)\<rparr>" "''{}''"]
    execCommand_started_outcome(3) [of example_config
     "example_env\<lparr>stdin_copy_err := Some (OtherError ''access denied''),
        read_fault := (\<lambda>s. case s of Stdout \<Rightarrow> None | Stderr \<Rightarrow> Some (0, OtherError ''read failed'')),
        completion_rank := (\<lambda>i. 3 - i)\<rparr>" "''{}''"]
  by (simp add: example_defs relay_results_def copy_in_result_def skipStdinCopyError_def
        read_err_def received_def arrivals_def numeral_3_eq_3)

text \<open>
  Claim C10: the command line is the command path as it is, followed by each escaped
  argument after a single space; the request handed to \<open>CreateProcessWithLogonW\<close>, when
  there is one, carries the command path as the application name and this command line.
\<close>

theorem command_path_is_not_escaped:
  "makeCmdLine cmd args = cmd @ concat (map (\<lambda>v. SPACE # EscapeArg v) args) \<and>
   (spawn_request (final (execCommand cfg e inputPayload)) = None \<or>
    (\<exists>pw fds. spawn_request (final (execCommand cfg e inputPayload)) =
       Some (secretBackendCommand cfg,
             secretBackendCommand cfg @
               concat (map (\<lambda>v. SPACE # EscapeArg v) (secretBackendArguments cfg)),
             pw, fds)))"
  using spawn_request_shape [of cfg e inputPayload]
  by (simp add: makeCmdLine_concat)

theorem command_path_is_not_escaped_witness:
  "makeCmdLine ''my \"backend\".exe'' [''a b'', ''c''] =
     ''my '' @ [DQUOTE] @ ''backend'' @ [DQUOTE] @ ''.exe'' @ [SPACE, DQUOTE] @ ''a b'' @ [DQUOTE, SPACE] @ ''c'' \<and>
   spawn_request (final (execCommand
       (example_config\<lparr>secretBackendCommand := ''my \"backend\".exe''\<rparr>) example_env ''{}'')) =
     Some (''my \"backend\".exe'', ''my \"backend\".exe --payload'', ''pw'', [20, 21, 22])"
  using command_path_is_not_escaped [of "''my \"backend\".exe''" "[''a b'', ''c'']"
      "example_config\<lparr>secretBackendCommand := ''my \"backend\".exe''\<rparr>" example_env "''{}''"]
  by (simp add: exec_defs example_config_def example_env_def)

end
